theory Spec2Isabelle
  imports Complex_Main
begin

section \<open>Python values and exceptions\<close>

text \<open>
  An exception is its class name together with the text \<open>str(e)\<close> yields. A computation
  that may raise returns \<open>py_exception + 'a\<close>, \<open>Inl\<close> carrying the exception.
\<close>

datatype py_exception = PyExc (exc_class: string) (exc_str: string)

section \<open>Scheduler: \<open>InstagramPublisher._calculate_optimal_time\<close>\<close>

text \<open>
  A \<open>datetime\<close> is kept as the proleptic Gregorian ordinal of its date
  (\<open>date.toordinal()\<close>, 1 for 0001-01-01 and 3652059 for 9999-12-31) and its time fields.
\<close>

record datetime =
  ordinal :: int
  hour :: int
  minute :: int
  second :: int
  microsecond :: int

definition max_ordinal :: int where
  "max_ordinal = 3652059"

definition valid_datetime :: "datetime \<Rightarrow> bool" where
  "valid_datetime d \<longleftrightarrow>
     1 \<le> ordinal d \<and> ordinal d \<le> max_ordinal \<and>
     0 \<le> hour d \<and> hour d \<le> 23 \<and> 0 \<le> minute d \<and> minute d \<le> 59 \<and>
     0 \<le> second d \<and> second d \<le> 59 \<and> 0 \<le> microsecond d \<and> microsecond d \<le> 999999"

text \<open>
  \<open>d.replace(hour=h, minute=0, second=0, microsecond=0)\<close>. CPython first converts the
  hour to a C \<open>int\<close> (through a C \<open>long\<close>, 64 bits here), which raises OverflowError for a
  value that does not fit; then the constructor checks the range of the hour.
\<close>

definition c_int_max :: int where
  "c_int_max = 2147483647"

definition c_long_max :: int where
  "c_long_max = 9223372036854775807"

definition replace_time :: "datetime \<Rightarrow> int \<Rightarrow> py_exception + datetime" where
  "replace_time d h =
     (if h > c_long_max \<or> h < - c_long_max - 1
      then Inl (PyExc ''OverflowError'' ''Python int too large to convert to C long'')
      else if h > c_int_max
      then Inl (PyExc ''OverflowError'' ''signed integer is greater than maximum'')
      else if h < - c_int_max - 1
      then Inl (PyExc ''OverflowError'' ''signed integer is less than minimum'')
      else if 0 \<le> h \<and> h \<le> 23
      then Inr (d\<lparr>hour := h, minute := 0, second := 0, microsecond := 0\<rparr>)
      else Inl (PyExc ''ValueError'' ''hour must be in 0..23''))"

text \<open>\<open>d + timedelta(minutes=m)\<close>: the minutes carry into the hour and the day.\<close>

definition add_minutes :: "datetime \<Rightarrow> int \<Rightarrow> py_exception + datetime" where
  "add_minutes d m =
     (let total = hour d * 60 + minute d + m;
          day = ordinal d + total div 1440;
          rest = total mod 1440
      in if 1 \<le> day \<and> day \<le> max_ordinal
         then Inr (d\<lparr>ordinal := day, hour := rest div 60, minute := rest mod 60\<rparr>)
         else Inl (PyExc ''OverflowError'' ''date value out of range''))"

text \<open>
  The draw \<open>random.randint(-15, 15)\<close> is the parameter \<open>jitter\<close>.
\<close>

definition calculate_optimal_time :: "datetime \<Rightarrow> int \<Rightarrow> int \<Rightarrow> py_exception + datetime" where
  "calculate_optimal_time start_date post_index jitter =
     (let base_hour = 9 + post_index * 3;
          base_hour = (if base_hour > 21 then 9 + post_index * 2 else base_hour)
      in case replace_time start_date base_hour of
           Inl e \<Rightarrow> Inl e
         | Inr post_time \<Rightarrow> add_minutes post_time jitter)"

text \<open>The clock time of a result, as (hour, minute); \<open>None\<close> when the call raised.\<close>

definition clock_of :: "py_exception + datetime \<Rightarrow> (int \<times> int) option" where
  "clock_of r = (case r of Inl e \<Rightarrow> None | Inr d \<Rightarrow> Some (hour d, minute d))"

definition sample_start :: datetime where
  "sample_start = \<lparr>ordinal = 738000, hour = 7, minute = 42, second = 5, microsecond = 17\<rparr>"

section \<open>Dynamically typed values\<close>

text \<open>
  What \<open>json.loads\<close> can return. Object keys are strings, each listed once; a float is
  kept as the rational it denotes (the code only ever asks whether such a value is zero). The messages of the
  interpreter's own exceptions are those of CPython 3.11.
\<close>

datatype pyval =
    PNone
  | PBool bool
  | PInt int
  | PFloat rat
  | PStr string
  | PList "pyval list"
  | PDict "(string \<times> pyval) list"

fun type_name :: "pyval \<Rightarrow> string" where
  "type_name PNone = ''NoneType''"
| "type_name (PBool b) = ''bool''"
| "type_name (PInt i) = ''int''"
| "type_name (PFloat f) = ''float''"
| "type_name (PStr s) = ''str''"
| "type_name (PList xs) = ''list''"
| "type_name (PDict kv) = ''dict''"

definition quoted :: "string \<Rightarrow> string" where
  "quoted s = [CHR 0x27] @ s @ [CHR 0x27]"

text \<open>\<open>bool(x)\<close>\<close>

fun truthy :: "pyval \<Rightarrow> bool" where
  "truthy PNone = False"
| "truthy (PBool b) = b"
| "truthy (PInt i) = (i \<noteq> 0)"
| "truthy (PFloat f) = (f \<noteq> 0)"
| "truthy (PStr s) = (s \<noteq> [])"
| "truthy (PList xs) = (xs \<noteq> [])"
| "truthy (PDict kv) = (kv \<noteq> [])"

text \<open>\<open>x.get(key, default)\<close>: only a dict has the method.\<close>

fun py_get :: "pyval \<Rightarrow> string \<Rightarrow> pyval \<Rightarrow> py_exception + pyval" where
  "py_get (PDict kv) key dflt = Inr (case map_of kv key of None \<Rightarrow> dflt | Some v \<Rightarrow> v)"
| "py_get x key dflt =
     Inl (PyExc ''AttributeError''
            (quoted (type_name x) @ '' object has no attribute '' @ quoted ''get''))"

fun is_substring :: "string \<Rightarrow> string \<Rightarrow> bool" where
  "is_substring s [] = (s = [])"
| "is_substring s (c # t) = (take (length s) (c # t) = s \<or> is_substring s t)"

text \<open>\<open>key in x\<close> for a string \<open>key\<close>\<close>

fun py_contains :: "string \<Rightarrow> pyval \<Rightarrow> py_exception + bool" where
  "py_contains key (PDict kv) = Inr (key \<in> fst ` set kv)"
| "py_contains key (PList xs) = Inr (PStr key \<in> set xs)"
| "py_contains key (PStr s) = Inr (is_substring key s)"
| "py_contains key x =
     Inl (PyExc ''TypeError''
            (''argument of type '' @ quoted (type_name x) @ '' is not iterable''))"

text \<open>\<open>x[key]\<close> for a string \<open>key\<close>\<close>

fun py_getitem_str :: "pyval \<Rightarrow> string \<Rightarrow> py_exception + pyval" where
  "py_getitem_str (PDict kv) key =
     (case map_of kv key of
        None \<Rightarrow> Inl (PyExc ''KeyError'' (quoted key))
      | Some v \<Rightarrow> Inr v)"
| "py_getitem_str (PList xs) key =
     Inl (PyExc ''TypeError'' ''list indices must be integers or slices, not str'')"
| "py_getitem_str (PStr s) key =
     Inl (PyExc ''TypeError'' (''string indices must be integers, not '' @ quoted ''str''))"
| "py_getitem_str x key =
     Inl (PyExc ''TypeError'' (quoted (type_name x) @ '' object is not subscriptable''))"

text \<open>\<open>str(n)\<close> for \<open>n \<ge> 0\<close>\<close>

definition digit_char :: "nat \<Rightarrow> char" where
  "digit_char d = ''0123456789'' ! d"

fun digit_str :: "nat \<Rightarrow> string" where
  "digit_str n =
     (if n < 10 then [digit_char n]
      else digit_str (n div 10) @ [digit_char (n mod 10)])"

declare digit_str.simps [simp del]

text \<open>
  A \<open>str\<close> is kept as its UTF-8 bytes, while Python counts and indexes code points. A code
  point is a lead byte followed by its continuation bytes (\<open>0x80\<close> to \<open>0xBF\<close>).
\<close>

definition is_continuation :: "char \<Rightarrow> bool" where
  "is_continuation c \<longleftrightarrow> 128 \<le> (of_char c :: nat) \<and> (of_char c :: nat) < 192"

function code_points :: "string \<Rightarrow> string list" where
  "code_points [] = []"
| "code_points (c # cs) =
     (c # takeWhile is_continuation cs) # code_points (dropWhile is_continuation cs)"
  by pat_completeness auto
termination
  by (relation "measure length") (auto simp: length_dropWhile_le less_Suc_eq_le)

text \<open>\<open>x[i]\<close> for an index \<open>i \<ge> 0\<close> (the code subscripts with 0 and with loop counters).\<close>

fun py_getitem_nat :: "pyval \<Rightarrow> nat \<Rightarrow> py_exception + pyval" where
  "py_getitem_nat (PList xs) i =
     (if i < length xs then Inr (xs ! i)
      else Inl (PyExc ''IndexError'' ''list index out of range''))"
| "py_getitem_nat (PStr s) i =
     (if i < length (code_points s) then Inr (PStr (code_points s ! i))
      else Inl (PyExc ''IndexError'' ''string index out of range''))"
| "py_getitem_nat (PDict kv) i = Inl (PyExc ''KeyError'' (digit_str i))"
| "py_getitem_nat x i =
     Inl (PyExc ''TypeError'' (quoted (type_name x) @ '' object is not subscriptable''))"

text \<open>\<open>len(x)\<close>\<close>

fun py_len :: "pyval \<Rightarrow> py_exception + nat" where
  "py_len (PList xs) = Inr (length xs)"
| "py_len (PStr s) = Inr (length (code_points s))"
| "py_len (PDict kv) = Inr (length kv)"
| "py_len x =
     Inl (PyExc ''TypeError'' (''object of type '' @ quoted (type_name x) @ '' has no len()''))"

section \<open>Content engine: \<open>MagicalParentingContentEngine\<close>\<close>

datatype ContentType = CAROUSEL | VIDEO | STORY

datatype DayTheme =
    MAGICAL_MONDAY
  | TINY_TALES_TUESDAY
  | WONDER_WEDNESDAY
  | THOUGHTFUL_THURSDAY
  | FANTASY_FRIDAY
  | STORY_SATURDAY
  | SERENE_SUNDAY


text \<open>
  The dataclass \<open>ContentPiece\<close>. Python does not enforce the annotations: \<open>title\<close>,
  \<open>slides\<close>, \<open>visual_prompts\<close> and the entries of \<open>engagement_hooks\<close> hold whatever the
  backend's JSON held, so they are \<open>pyval\<close>s here.
\<close>

record ContentPiece =
  theme :: DayTheme
  content_type :: ContentType
  title :: pyval
  slides :: pyval
  caption :: string
  hashtags :: "string list"
  visual_prompts :: pyval
  psychology_concept :: string
  magical_element :: string
  target_age :: string
  engagement_hooks :: "pyval list"
  created_at :: datetime

text \<open>
  The prompts sent to the backend. Each f-string is fixed prose around the values
  interpolated into it, so a prompt is kept as its kind and those values.
\<close>

datatype prompt =
    CarouselPrompt string DayTheme string string
  | VideoPrompt string DayTheme string string
  | VisualPrompt pyval string
  | CaptionPrompt string pyval DayTheme
  | VideoCaptionPrompt string pyval

text \<open>
  Everything outside the engine that one generation call consults: the backend
  (\<open>_call_openai\<close>, which returns the reply's text or raises), \<open>json.loads\<close>, the three
  \<open>random.choice\<close> draws from the topic, concept and element banks, and the clock.
\<close>

record environment =
  call_openai :: "prompt \<Rightarrow> py_exception + string"
  json_loads :: "string \<Rightarrow> py_exception + pyval"
  chosen_topic :: string
  chosen_concept :: string
  chosen_element :: string
  clock_now :: datetime

text \<open>The bytes that follow the last fallback slide's text in the source file.\<close>

definition point_down :: string where
  "point_down = [CHR 0xC3, CHR 0xB0, CHR 0xC5, CHR 0xB8, CHR 0xE2, CHR 0x80, CHR 0x98,
                 CHR 0xE2, CHR 0x80, CHR 0xA1]"

definition sparkles :: string where
  "sparkles = [CHR 0xC3, CHR 0xA2, CHR 0xC5, CHR 0x93, CHR 0xC2, CHR 0xA8]"

definition clapper :: string where
  "clapper = [CHR 0xC3, CHR 0xB0, CHR 0xC5, CHR 0xB8, CHR 0xC5, CHR 0xBD, CHR 0xC2, CHR 0xAC]"

definition fallback_visual_prompts :: "string \<Rightarrow> pyval" where
  "fallback_visual_prompts element = PList
     [PStr (''Whimsical illustration of '' @ element @ '', children's book style''),
      PStr ''Magical parent-child moment, soft colors, cozy setting'',
      PStr ''Enchanted forest scene with family, warm lighting'',
      PStr ''Fairy tale inspired parenting scene, gentle magic'',
      PStr ''Magical family bonding moment, dreamy atmosphere'']"

text \<open>
  \<open>_generate_visual_prompts\<close>: the prompt is built before the \<open>try\<close>, so a payload without
  \<open>.get\<close> raises out of the function; everything inside the \<open>try\<close> falls back to the five
  fixed prompts.
\<close>

definition generate_visual_prompts :: "environment \<Rightarrow> pyval \<Rightarrow> string \<Rightarrow> py_exception + pyval" where
  "generate_visual_prompts env content_data element =
     (case py_get content_data ''title'' (PStr []) of
        Inl e \<Rightarrow> Inl e
      | Inr ttl \<Rightarrow>
          Inr (case call_openai env (VisualPrompt ttl element) of
                 Inl e \<Rightarrow> fallback_visual_prompts element
               | Inr response \<Rightarrow>
                   (case json_loads env response of
                      Inl e \<Rightarrow> fallback_visual_prompts element
                    | Inr prompts_data \<Rightarrow>
                        (case py_get prompts_data ''prompts'' (PList []) of
                           Inl e \<Rightarrow> fallback_visual_prompts element
                         | Inr prompts \<Rightarrow> prompts))))"

definition fallback_caption :: "string \<Rightarrow> string" where
  "fallback_caption topic =
     sparkles @ '' Magical parenting wisdom for '' @ topic @
     ''! Every challenge is an opportunity for growth. What's your experience with this? Share below! '' @
     point_down @ '' #MagicalParenting #ParentingTips''"

definition generate_caption ::
  "environment \<Rightarrow> pyval \<Rightarrow> string \<Rightarrow> DayTheme \<Rightarrow> py_exception + string" where
  "generate_caption env content_data topic th =
     (case py_get content_data ''title'' (PStr []) of
        Inl e \<Rightarrow> Inl e
      | Inr ttl \<Rightarrow>
          Inr (case call_openai env (CaptionPrompt topic ttl th) of
                 Inl e \<Rightarrow> fallback_caption topic
               | Inr response \<Rightarrow> response))"

definition fallback_video_caption :: "string \<Rightarrow> string" where
  "fallback_video_caption topic =
     clapper @ '' Quick magical parenting tip for '' @ topic @
     ''! Every challenge is a story waiting to be told. What's your experience? Comment below! '' @
     point_down @ '' #ParentingVideo #MagicalParenting''"

definition generate_video_caption :: "environment \<Rightarrow> pyval \<Rightarrow> string \<Rightarrow> py_exception + string" where
  "generate_video_caption env video_data topic =
     (case py_get video_data ''title'' (PStr []) of
        Inl e \<Rightarrow> Inl e
      | Inr ttl \<Rightarrow>
          Inr (case call_openai env (VideoCaptionPrompt topic ttl) of
                 Inl e \<Rightarrow> fallback_video_caption topic
               | Inr response \<Rightarrow> response))"

text \<open>\<open>s.replace(c, r)\<close> for a one-character \<open>c\<close>\<close>

definition replace_char :: "char \<Rightarrow> string \<Rightarrow> string \<Rightarrow> string" where
  "replace_char c r s = concat (map (\<lambda>x. if x = c then r else [x]) s)"

definition base_hashtags :: "string list" where
  "base_hashtags =
     [''#MagicalParenting'', ''#ParentingWisdom'', ''#ParentingTips'',
      ''#ChildPsychology'', ''#ParentingSupport'', ''#BedtimeStories'',
      ''#ParentingCommunity'', ''#RaisingKids'', ''#ParentingAdvice'']"

definition video_hashtags :: "string list" where
  "video_hashtags = [''#ParentingVideo'', ''#InstagramVideo'', ''#ParentingReel'']"

fun theme_hashtags :: "DayTheme \<Rightarrow> string list" where
  "theme_hashtags MAGICAL_MONDAY = [''#MondayMotivation'', ''#ParentingMindset'']"
| "theme_hashtags TINY_TALES_TUESDAY = [''#TuesdayTales'', ''#Storytelling'']"
| "theme_hashtags WONDER_WEDNESDAY = [''#WonderWednesday'', ''#ParentingQuestions'']"
| "theme_hashtags THOUGHTFUL_THURSDAY = [''#ThoughtfulParenting'', ''#DeepThoughts'']"
| "theme_hashtags FANTASY_FRIDAY = [''#FantasyFriday'', ''#WeekendFun'']"
| "theme_hashtags STORY_SATURDAY = [''#StorySaturday'', ''#FamilyTime'']"
| "theme_hashtags SERENE_SUNDAY = [''#SereneParenting'', ''#SelfCare'']"

definition topic_hashtags :: "string \<Rightarrow> string list" where
  "topic_hashtags topic =
     [''#'' @ replace_char CHR ''_'' [] (replace_char CHR '' '' [] topic),
      ''#'' @ replace_char CHR ''_'' ''Tips'' (replace_char CHR '' '' ''Tips'' topic)]"

definition generate_hashtags :: "string \<Rightarrow> DayTheme \<Rightarrow> bool \<Rightarrow> string list" where
  "generate_hashtags topic th is_video =
     (let base = (if is_video then base_hashtags @ video_hashtags else base_hashtags);
          all_hashtags = base @ theme_hashtags th @ topic_hashtags topic
      in take 25 all_hashtags)"

definition extract_hooks :: "pyval \<Rightarrow> py_exception + pyval list" where
  "extract_hooks content_data =
     (case py_contains ''slides'' content_data of
        Inl e \<Rightarrow> Inl e
      | Inr present \<Rightarrow>
          if \<not> present then Inr []
          else (case py_getitem_str content_data ''slides'' of
                  Inl e \<Rightarrow> Inl e
                | Inr sl \<Rightarrow>
                    if \<not> truthy sl then Inr []
                    else (case py_getitem_nat sl 0 of
                            Inl e \<Rightarrow> Inl e
                          | Inr hook \<Rightarrow> Inr [hook])))"

definition generate_fallback_content :: "DayTheme \<Rightarrow> string \<Rightarrow> datetime \<Rightarrow> ContentPiece" where
  "generate_fallback_content th topic now =
     \<lparr>theme = th,
      content_type = CAROUSEL,
      title = PStr (''Quick Tips for '' @ topic),
      slides = PList
        [PStr (''Struggling with '' @ topic @ ''?''),
         PStr ''Take a deep breath, you've got this!'',
         PStr ''Every challenge is a growth opportunity'',
         PStr ''Small steps lead to big changes'',
         PStr (''Share your experience below! '' @ point_down)],
      caption = ''Quick thoughts on '' @ topic @ ''. What works for your family?'',
      hashtags = [''#ParentingTips'', ''#ParentingSupport'', ''#YouGotThis''],
      visual_prompts = PList [PStr ''Simple, calming illustration''],
      psychology_concept = ''general support'',
      magical_element = ''gentle encouragement'',
      target_age = ''all'',
      engagement_hooks = [PStr ''Quick question for you...''],
      created_at = now\<rparr>"

definition generate_fallback_video :: "DayTheme \<Rightarrow> string \<Rightarrow> datetime \<Rightarrow> ContentPiece" where
  "generate_fallback_video th topic now =
     \<lparr>theme = th,
      content_type = VIDEO,
      title = PStr (''Quick Video: '' @ topic),
      slides = PList
        [PStr ''Quick tip coming your way!'',
         PStr (''When dealing with '' @ topic @ ''...''),
         PStr ''Remember: Progress, not perfection'',
         PStr ''What would you add? Comment below!''],
      caption = ''Quick thoughts on '' @ topic @ ''. What's your experience?'',
      hashtags = [''#ParentingVideo'', ''#QuickTips'', ''#ParentingSupport''],
      visual_prompts = PList [PStr ''Simple talking head with text overlay''],
      psychology_concept = ''general support'',
      magical_element = ''encouraging tone'',
      target_age = ''all'',
      engagement_hooks = [PStr ''Quick question...''],
      created_at = now\<rparr>"

text \<open>\<open>if not topic: topic = random.choice(self.trending_topics)\<close>\<close>

definition resolve_topic :: "environment \<Rightarrow> string option \<Rightarrow> string" where
  "resolve_topic env topic =
     (case topic of
        None \<Rightarrow> chosen_topic env
      | Some t \<Rightarrow> if t = [] then chosen_topic env else t)"

text \<open>The body of the \<open>try\<close> block of \<open>generate_carousel_content\<close>.\<close>

definition carousel_try ::
  "environment \<Rightarrow> DayTheme \<Rightarrow> string \<Rightarrow> string \<Rightarrow> string \<Rightarrow> py_exception + ContentPiece" where
  "carousel_try env th topic concept element =
     (case call_openai env (CarouselPrompt topic th concept element) of
        Inl e \<Rightarrow> Inl e
      | Inr response \<Rightarrow>
     (case json_loads env response of
        Inl e \<Rightarrow> Inl e
      | Inr content_data \<Rightarrow>
     (case generate_visual_prompts env content_data element of
        Inl e \<Rightarrow> Inl e
      | Inr prompts \<Rightarrow>
     (case generate_caption env content_data topic th of
        Inl e \<Rightarrow> Inl e
      | Inr cap \<Rightarrow>
     (case py_get content_data ''title'' (PStr []) of
        Inl e \<Rightarrow> Inl e
      | Inr ttl \<Rightarrow>
     (case py_get content_data ''slides'' (PList []) of
        Inl e \<Rightarrow> Inl e
      | Inr sl \<Rightarrow>
     (case extract_hooks content_data of
        Inl e \<Rightarrow> Inl e
      | Inr hooks \<Rightarrow>
          Inr \<lparr>theme = th,
               content_type = CAROUSEL,
               title = ttl,
               slides = sl,
               caption = cap,
               hashtags = generate_hashtags topic th False,
               visual_prompts = prompts,
               psychology_concept = concept,
               magical_element = element,
               target_age = ''3-10'',
               engagement_hooks = hooks,
               created_at = clock_now env\<rparr>)))))))"

definition generate_carousel_content ::
  "environment \<Rightarrow> DayTheme \<Rightarrow> string option \<Rightarrow> ContentPiece" where
  "generate_carousel_content env th topic_arg =
     (let topic = resolve_topic env topic_arg;
          concept = chosen_concept env;
          element = chosen_element env
      in case carousel_try env th topic concept element of
           Inl e \<Rightarrow> generate_fallback_content th topic (clock_now env)
         | Inr piece \<Rightarrow> piece)"

text \<open>The body of the \<open>try\<close> block of \<open>generate_video_content\<close>.\<close>

definition video_try ::
  "environment \<Rightarrow> DayTheme \<Rightarrow> string \<Rightarrow> string \<Rightarrow> string \<Rightarrow> py_exception + ContentPiece" where
  "video_try env th topic concept element =
     (case call_openai env (VideoPrompt topic th concept element) of
        Inl e \<Rightarrow> Inl e
      | Inr response \<Rightarrow>
     (case json_loads env response of
        Inl e \<Rightarrow> Inl e
      | Inr video_data \<Rightarrow>
     (case generate_video_caption env video_data topic of
        Inl e \<Rightarrow> Inl e
      | Inr cap \<Rightarrow>
     (case py_get video_data ''title'' (PStr []) of
        Inl e \<Rightarrow> Inl e
      | Inr ttl \<Rightarrow>
     (case py_get video_data ''script_sections'' (PList []) of
        Inl e \<Rightarrow> Inl e
      | Inr sections \<Rightarrow>
     (case py_get video_data ''scene_descriptions'' (PList []) of
        Inl e \<Rightarrow> Inl e
      | Inr scenes \<Rightarrow>
     (case py_get video_data ''hook'' (PStr []) of
        Inl e \<Rightarrow> Inl e
      | Inr hook \<Rightarrow>
          Inr \<lparr>theme = th,
               content_type = VIDEO,
               title = ttl,
               slides = sections,
               caption = cap,
               hashtags = generate_hashtags topic th True,
               visual_prompts = scenes,
               psychology_concept = concept,
               magical_element = element,
               target_age = ''3-10'',
               engagement_hooks = [hook],
               created_at = clock_now env\<rparr>)))))))"

definition generate_video_content ::
  "environment \<Rightarrow> DayTheme \<Rightarrow> string option \<Rightarrow> ContentPiece" where
  "generate_video_content env th topic_arg =
     (let topic = resolve_topic env topic_arg;
          concept = chosen_concept env;
          element = chosen_element env
      in case video_try env th topic concept element of
           Inl e \<Rightarrow> generate_fallback_video th topic (clock_now env)
         | Inr piece \<Rightarrow> piece)"

text \<open>The number of slides of a piece: the length of its slide list, if it is a list.\<close>

definition slide_count :: "ContentPiece \<Rightarrow> nat option" where
  "slide_count p = (case slides p of PList xs \<Rightarrow> Some (length xs) | _ \<Rightarrow> None)"

text \<open>Sample environments: a backend that always raises, and one that answers \<open>{}\<close>.\<close>

definition failing_env :: environment where
  "failing_env =
     \<lparr>call_openai = (\<lambda>p. Inl (PyExc ''Exception'' ''API Error'')),
      json_loads = (\<lambda>s. if s = ''{}'' then Inr (PDict []) else Inl (PyExc ''JSONDecodeError'' s)),
      chosen_topic = ''toddler tantrums'',
      chosen_concept = ''growth mindset'',
      chosen_element = ''owl wisdom'',
      clock_now = sample_start\<rparr>"

definition empty_object_env :: environment where
  "empty_object_env = failing_env\<lparr>call_openai := (\<lambda>p. Inr ''{}'')\<rparr>"

definition caption_failing_env :: environment where
  "caption_failing_env =
     failing_env\<lparr>call_openai :=
       (\<lambda>p. case p of
               CaptionPrompt t ttl th \<Rightarrow> Inl (PyExc ''Exception'' ''API Error'')
             | _ \<Rightarrow> Inr ''{}'')\<rparr>"

text \<open>
  A stand-in for \<open>json.loads\<close> on the four sample replies: the empty object, the empty
  array, an object whose \<open>slides\<close> entry is the number 5, and text that is not JSON.
\<close>

definition slides_five_text :: string where
  "slides_five_text = ''{'' @ [CHR 0x22] @ ''slides'' @ [CHR 0x22] @ '': 5}''"

definition sample_loads :: "string \<Rightarrow> py_exception + pyval" where
  "sample_loads s =
     (if s = ''{}'' then Inr (PDict [])
      else if s = ''[]'' then Inr (PList [])
      else if s = slides_five_text then Inr (PDict [(''slides'', PInt 5)])
      else Inl (PyExc ''JSONDecodeError'' ''Expecting value: line 1 column 1 (char 0)''))"

text \<open>A backend that gives the same reply to every prompt.\<close>

definition reply_env :: "string \<Rightarrow> environment" where
  "reply_env r = failing_env\<lparr>call_openai := (\<lambda>p. Inr r), json_loads := sample_loads\<rparr>"

text \<open>The prompt of the first backend call and the fallback piece of one generation call.\<close>

definition carousel_prompt :: "environment \<Rightarrow> DayTheme \<Rightarrow> string option \<Rightarrow> prompt" where
  "carousel_prompt env th topic_arg =
     CarouselPrompt (resolve_topic env topic_arg) th (chosen_concept env) (chosen_element env)"

definition video_prompt :: "environment \<Rightarrow> DayTheme \<Rightarrow> string option \<Rightarrow> prompt" where
  "video_prompt env th topic_arg =
     VideoPrompt (resolve_topic env topic_arg) th (chosen_concept env) (chosen_element env)"

definition carousel_fallback :: "environment \<Rightarrow> DayTheme \<Rightarrow> string option \<Rightarrow> ContentPiece" where
  "carousel_fallback env th topic_arg =
     generate_fallback_content th (resolve_topic env topic_arg) (clock_now env)"

definition video_fallback :: "environment \<Rightarrow> DayTheme \<Rightarrow> string option \<Rightarrow> ContentPiece" where
  "video_fallback env th topic_arg =
     generate_fallback_video th (resolve_topic env topic_arg) (clock_now env)"

fun is_dict :: "pyval \<Rightarrow> bool" where
  "is_dict (PDict kv) = True"
| "is_dict x = False"

section \<open>Rate limiter: \<open>InstagramPublisher._check_rate_limit\<close>\<close>

text \<open>
  The publisher's mutable fields. Instants are microseconds since the epoch (the
  resolution of \<open>datetime\<close>), so \<open>(now - last).total_seconds() > 3600\<close> is a comparison
  of a microsecond difference with \<open>hour_us\<close>; a sleep is given in microseconds too.
\<close>

record InstagramPublisher =
  request_count :: int
  last_request_time :: int
  rate_limit :: int

definition hour_us :: int where
  "hour_us = 3600 * 1000000"

text \<open>
  \<open>check_rate_limit p now woke\<close>: \<open>now\<close> is the clock at entry and \<open>woke\<close> the clock read
  after the sleep, if there is one. The result is the new state and the sleep taken.
\<close>

definition check_rate_limit ::
  "InstagramPublisher \<Rightarrow> int \<Rightarrow> int \<Rightarrow> InstagramPublisher \<times> int option" where
  "check_rate_limit p now woke =
     (let p1 = (if now - last_request_time p > hour_us
                then p\<lparr>request_count := 0, last_request_time := now\<rparr> else p)
      in if request_count p1 \<ge> rate_limit p1
         then (let wait_time = hour_us - (now - last_request_time p1)
               in if wait_time > 0
                  then (p1\<lparr>request_count := 0 + 1, last_request_time := woke\<rparr>, Some wait_time)
                  else (p1\<lparr>request_count := request_count p1 + 1\<rparr>, None))
         else (p1\<lparr>request_count := request_count p1 + 1\<rparr>, None))"

text \<open>A sequence of calls, each with its two clock readings; the sleeps are collected.\<close>

fun run_calls ::
  "InstagramPublisher \<Rightarrow> (int \<times> int) list \<Rightarrow> InstagramPublisher \<times> int option list" where
  "run_calls p [] = (p, [])"
| "run_calls p ((now, woke) # cs) =
     (let (p1, s) = check_rate_limit p now woke;
          (p2, ss) = run_calls p1 cs
      in (p2, s # ss))"

definition sample_publisher :: InstagramPublisher where
  "sample_publisher = \<lparr>request_count = 0, last_request_time = 1000, rate_limit = 2\<rparr>"

definition sample_calls :: "(int \<times> int) list" where
  "sample_calls = [(2000, 2000), (5000, 5000)]"

section \<open>Publishing client: \<open>InstagramPublisher.publish_carousel\<close>\<close>

text \<open>
  What \<open>requests.post\<close> gives back: the status code, the body text, and what
  \<open>response.json()\<close> returns or raises.
\<close>

record http_response =
  status_code :: int
  text_of :: string
  json_of :: "py_exception + pyval"

text \<open>
  The remote platform is the sequence of outcomes of the successive \<open>requests.post\<close> calls
  of one publish: entry \<open>n\<close> is what call number \<open>n\<close> (from 0) returns or raises.
\<close>

type_synonym platform = "nat \<Rightarrow> py_exception + http_response"

text \<open>
  The requests issued, with the fields that vary (the access token is on every one):
  a POST to \<open>/media\<close> with \<open>image_url\<close> and \<open>caption\<close>, or a POST to \<open>/media_publish\<close> with
  \<open>caption\<close> and \<open>children\<close>.
\<close>

datatype request =
    CreateMedia string pyval
  | PublishMedia string "pyval list"

fun is_publish :: "request \<Rightarrow> bool" where
  "is_publish (PublishMedia c ids) = True"
| "is_publish (CreateMedia u c) = False"

text \<open>
  The returned dict: \<open>{"error": msg}\<close>, or the published post, whose \<open>post_url\<close> and
  \<open>published_at\<close> entries are fixed by the post id and the clock.
\<close>

datatype publish_result = Published pyval | PublishError string

text \<open>\<open>content.slides[i] if i < len(content.slides) else ""\<close>\<close>

definition media_caption :: "pyval \<Rightarrow> nat \<Rightarrow> py_exception + pyval" where
  "media_caption sl i =
     (case py_len sl of
        Inl e \<Rightarrow> Inl e
      | Inr n \<Rightarrow> if i < n then py_getitem_nat sl i else Inr (PStr []))"

text \<open>\<open>response.json().get("id")\<close>\<close>

definition response_id :: "http_response \<Rightarrow> py_exception + pyval" where
  "response_id r = (case json_of r of Inl e \<Rightarrow> Inl e | Inr j \<Rightarrow> py_get j ''id'' PNone)"

text \<open>
  The loop over \<open>enumerate(image_urls)\<close>, from index \<open>i\<close> with the ids and the requests so
  far. It ends by raising (\<open>Inl\<close>), by the early \<open>return\<close> of an error message
  (\<open>Inr (Inl msg)\<close>), or by running out of URLs with all ids (\<open>Inr (Inr ids)\<close>).
\<close>

fun create_media ::
  "platform \<Rightarrow> pyval \<Rightarrow> string list \<Rightarrow> nat \<Rightarrow> pyval list \<Rightarrow> request list \<Rightarrow>
     (py_exception + (string + pyval list)) \<times> request list" where
  "create_media pf sl [] i media_ids reqs = (Inr (Inr media_ids), reqs)"
| "create_media pf sl (image_url # rest) i media_ids reqs =
     (case media_caption sl i of
        Inl e \<Rightarrow> (Inl e, reqs)
      | Inr cap \<Rightarrow>
          (case pf (length reqs) of
             Inl e \<Rightarrow> (Inl e, reqs @ [CreateMedia image_url cap])
           | Inr response \<Rightarrow>
               if status_code response = 200
               then (case response_id response of
                       Inl e \<Rightarrow> (Inl e, reqs @ [CreateMedia image_url cap])
                     | Inr media_id \<Rightarrow>
                         create_media pf sl rest (i + 1) (media_ids @ [media_id])
                           (reqs @ [CreateMedia image_url cap]))
               else (Inr (Inl (''Media creation failed: '' @ text_of response)),
                     reqs @ [CreateMedia image_url cap])))"

text \<open>\<open>' '.join(xs)\<close>\<close>

fun join_space :: "string list \<Rightarrow> string" where
  "join_space [] = []"
| "join_space [x] = x"
| "join_space (x # y # ys) = x @ '' '' @ join_space (y # ys)"

definition post_caption :: "ContentPiece \<Rightarrow> string" where
  "post_caption content = caption content @ [CHR 0x0A, CHR 0x0A] @ join_space (hashtags content)"

text \<open>
  \<open>publish_carousel\<close>: the rate-limit check, the media loop, the publish call. Any
  exception inside ends in \<open>{"error": str(e)}\<close>. The result is the publisher's new state,
  the returned dict and the requests issued, in order.
\<close>

definition publish_carousel ::
  "InstagramPublisher \<Rightarrow> int \<Rightarrow> int \<Rightarrow> platform \<Rightarrow> ContentPiece \<Rightarrow> string list \<Rightarrow>
     InstagramPublisher \<times> publish_result \<times> request list" where
  "publish_carousel p now woke pf content image_urls =
     (let p1 = fst (check_rate_limit p now woke)
      in case create_media pf (slides content) image_urls 0 [] [] of
           (Inl e, reqs) \<Rightarrow> (p1, PublishError (exc_str e), reqs)
         | (Inr (Inl msg), reqs) \<Rightarrow> (p1, PublishError msg, reqs)
         | (Inr (Inr media_ids), reqs) \<Rightarrow>
             (let reqs1 = reqs @ [PublishMedia (post_caption content) media_ids]
              in case pf (length reqs) of
                   Inl e \<Rightarrow> (p1, PublishError (exc_str e), reqs1)
                 | Inr response \<Rightarrow>
                     if status_code response = 200
                     then (case response_id response of
                             Inl e \<Rightarrow> (p1, PublishError (exc_str e), reqs1)
                           | Inr post_id \<Rightarrow> (p1, Published post_id, reqs1))
                     else (p1, PublishError (''Publishing failed: '' @ text_of response), reqs1)))"

text \<open>A media-creation call fails when it raises or answers with a status other than 200.\<close>

definition media_failed :: "py_exception + http_response \<Rightarrow> bool" where
  "media_failed x = (case x of Inl e \<Rightarrow> True | Inr r \<Rightarrow> status_code r \<noteq> 200)"

text \<open>It succeeds when it answers 200 with a body whose id can be read.\<close>

definition media_ok :: "py_exception + http_response \<Rightarrow> bool" where
  "media_ok x =
     (case x of
        Inl e \<Rightarrow> False
      | Inr r \<Rightarrow> status_code r = 200 \<and> (case response_id r of Inl e \<Rightarrow> False | Inr v \<Rightarrow> True))"

definition media_id_at :: "platform \<Rightarrow> nat \<Rightarrow> pyval" where
  "media_id_at pf n =
     (case pf n of
        Inl e \<Rightarrow> PNone
      | Inr r \<Rightarrow> (case response_id r of Inl e \<Rightarrow> PNone | Inr v \<Rightarrow> v))"

definition is_error :: "publish_result \<Rightarrow> bool" where
  "is_error r = (case r of PublishError msg \<Rightarrow> True | Published v \<Rightarrow> False)"

text \<open>The caption sent with asset \<open>i\<close> when the slides are the list \<open>xs\<close>.\<close>

definition slide_caption :: "pyval list \<Rightarrow> nat \<Rightarrow> pyval" where
  "slide_caption xs i = (if i < length xs then xs ! i else PStr [])"

definition result_of :: "InstagramPublisher \<times> publish_result \<times> request list \<Rightarrow> publish_result" where
  "result_of x = fst (snd x)"

definition requests_of :: "InstagramPublisher \<times> publish_result \<times> request list \<Rightarrow> request list" where
  "requests_of x = snd (snd x)"

text \<open>The captions of the media-creation requests among \<open>reqs\<close>, in order.\<close>

fun media_captions :: "request list \<Rightarrow> pyval list" where
  "media_captions [] = []"
| "media_captions (CreateMedia u c # reqs) = c # media_captions reqs"
| "media_captions (PublishMedia c ids # reqs) = media_captions reqs"

text \<open>Sample platform replies and pieces.\<close>

definition ok_response :: "string \<Rightarrow> http_response" where
  "ok_response ident =
     \<lparr>status_code = 200, text_of = ''ok'', json_of = Inr (PDict [(''id'', PStr ident)])\<rparr>"

definition bad_response :: http_response where
  "bad_response =
     \<lparr>status_code = 400, text_of = ''bad image'',
      json_of = Inr (PDict [(''error'', PStr ''bad image'')])\<rparr>"

definition all_ok_platform :: platform where
  "all_ok_platform = (\<lambda>n. Inr (ok_response (''1790'' @ digit_str n)))"

definition third_fails_platform :: platform where
  "third_fails_platform =
     (\<lambda>n. if n = 2 then Inr bad_response else Inr (ok_response (''1790'' @ digit_str n)))"

definition third_raises_platform :: platform where
  "third_raises_platform =
     (\<lambda>n. if n = 2 then Inl (PyExc ''ConnectionError'' ''boom'')
          else Inr (ok_response (''1790'' @ digit_str n)))"

definition sample_piece :: "pyval list \<Rightarrow> ContentPiece" where
  "sample_piece xs = (generate_fallback_content MAGICAL_MONDAY ''test topic'' sample_start)
     \<lparr>slides := PList xs\<rparr>"

definition five_urls :: "string list" where
  "five_urls = [''u0'', ''u1'', ''u2'', ''u3'', ''u4'']"

definition five_slides :: "pyval list" where
  "five_slides = [PStr ''s0'', PStr ''s1'', PStr ''s2'', PStr ''s3'', PStr ''s4'']"

section \<open>Retry layer: the task handlers of \<open>app.tasks.daily_content\<close>\<close>

text \<open>
  How one run of a task ends: it returns, it raises the queue layer's retry directive
  (\<open>raise self.retry(countdown=..., exc=exc)\<close>), or it raises the exception itself.
\<close>

datatype 'a task_outcome =
    Returned 'a
  | RetryIn nat py_exception
  | Raised py_exception

definition max_retries :: nat where
  "max_retries = 3"

text \<open>
  The \<open>except Exception as exc\<close> clause shared by the four tasks, with the base delay
  \<open>base\<close> of the task; \<open>retries\<close> is \<open>self.request.retries\<close> and \<open>body\<close> what the \<open>try\<close>
  block did.
\<close>

definition run_task :: "nat \<Rightarrow> nat \<Rightarrow> py_exception + 'a \<Rightarrow> 'a task_outcome" where
  "run_task base retries body =
     (case body of
        Inr v \<Rightarrow> Returned v
      | Inl exc \<Rightarrow>
          if retries < max_retries then RetryIn (2 ^ retries * base) exc
          else Raised exc)"

definition generate_daily_content :: "nat \<Rightarrow> py_exception + 'a \<Rightarrow> 'a task_outcome" where
  "generate_daily_content = run_task 60"

definition generate_weekly_content :: "nat \<Rightarrow> py_exception + 'a \<Rightarrow> 'a task_outcome" where
  "generate_weekly_content = run_task 300"

definition generate_bot_teaser_campaign :: "nat \<Rightarrow> py_exception + 'a \<Rightarrow> 'a task_outcome" where
  "generate_bot_teaser_campaign = run_task 600"

definition publish_scheduled_content :: "nat \<Rightarrow> py_exception + 'a \<Rightarrow> 'a task_outcome" where
  "publish_scheduled_content = run_task 300"

text \<open>
  The queue layer, by its contract: it runs the task; on a retry directive it runs the
  task again after the countdown with the retry counter one higher, up to its own
  ceiling of \<open>max_retries\<close> retries; a return or any other exception ends the operation.
  \<open>attempt r\<close> is what the task body does in the run with counter \<open>r\<close>. The result is the
  states passed through after Pending, the countdowns, and the final outcome.
\<close>

datatype op_state = Pending | Running | Retrying | Success | Failed

function queue_run ::
  "(nat \<Rightarrow> py_exception + 'a \<Rightarrow> 'a task_outcome) \<Rightarrow> (nat \<Rightarrow> py_exception + 'a) \<Rightarrow> nat \<Rightarrow>
     op_state list \<times> nat list \<times> (py_exception + 'a)" where
  "queue_run task attempt r =
     (case task r (attempt r) of
        Returned v \<Rightarrow> ([Running, Success], [], Inr v)
      | Raised exc \<Rightarrow> ([Running, Failed], [], Inl exc)
      | RetryIn countdown exc \<Rightarrow>
          if r < max_retries
          then (case queue_run task attempt (r + 1) of
                  (states, delays, res) \<Rightarrow> (Running # Retrying # states, countdown # delays, res))
          else ([Running, Failed], [], Inl exc))"
  by pat_completeness auto
termination
  by (relation "measure (\<lambda>(task, attempt, r). max_retries - r)") auto

declare queue_run.simps [simp del]

definition execute ::
  "(nat \<Rightarrow> py_exception + 'a \<Rightarrow> 'a task_outcome) \<Rightarrow> (nat \<Rightarrow> py_exception + 'a) \<Rightarrow>
     op_state list \<times> nat list \<times> (py_exception + 'a)" where
  "execute task attempt =
     (case queue_run task attempt 0 of
        (states, delays, res) \<Rightarrow> (Pending # states, delays, res))"

text \<open>An operation that fails on every attempt, with a different error each time.\<close>

definition always_failing :: "nat \<Rightarrow> py_exception + unit" where
  "always_failing r = Inl (PyExc ''Exception'' (''attempt '' @ digit_str r))"

section \<open>Engagement estimator: \<open>InstagramPublisher._estimate_engagement\<close>\<close>
























section \<open>Scheduler theorems\<close>

lemma calculate_optimal_time_zero_jitter:
  assumes "valid_datetime start" and "0 \<le> h" and "h \<le> 23"
    and "h = (if 9 + i * 3 > 21 then 9 + i * 2 else 9 + i * 3)"
  shows "calculate_optimal_time start i 0 =
           Inr (start\<lparr>hour := h, minute := 0, second := 0, microsecond := 0\<rparr>)"
proof -
  have day: "1 \<le> ordinal start" "ordinal start \<le> max_ordinal"
    using assms(1) by (simp_all add: valid_datetime_def)
  have "h * 60 div 1440 = 0" "h * 60 mod 1440 = h * 60"
    using assms(2,3) by simp_all
  then show ?thesis
    using day assms(2-4)
    by (simp add: calculate_optimal_time_def replace_time_def add_minutes_def Let_def
        c_int_max_def c_long_max_def)
qed

text \<open>
  C3 (as stated, refuted). With the jitter fixed to 0 the claim wants 11:00 for index 5.
  The code takes the 2-hour-step branch there and returns hour 9 + 2 * 5 = 19.
\<close>

theorem C3_index5_not_eleven:
  "clock_of (calculate_optimal_time sample_start 5 0) = Some (19, 0) \<and>
   clock_of (calculate_optimal_time sample_start 5 0) \<noteq> Some (11, 0)"
  by (simp add: calculate_optimal_time_def replace_time_def add_minutes_def clock_of_def
      sample_start_def max_ordinal_def Let_def c_int_max_def c_long_max_def)

text \<open>
  C3 (amended). With the jitter fixed to 0, for every valid batch start date the function
  returns 09:00, 12:00, 15:00, 18:00, 21:00 on that date for indices 0 to 4, and for
  index 5 the 2-hour-step branch gives 19:00.
\<close>

theorem C3_zero_jitter_schedule:
  assumes "valid_datetime start"
  shows "map (\<lambda>i. calculate_optimal_time start i 0) [0, 1, 2, 3, 4, 5] =
         map (\<lambda>h. Inr (start\<lparr>hour := h, minute := 0, second := 0, microsecond := 0\<rparr>))
           [9, 12, 15, 18, 21, 19]"
  using assms by (simp add: calculate_optimal_time_zero_jitter)

theorem C3_zero_jitter_schedule_witness:
  "valid_datetime sample_start \<and>
   map (\<lambda>i. clock_of (calculate_optimal_time sample_start i 0)) [0, 1, 2, 3, 4, 5] =
     [Some (9, 0), Some (12, 0), Some (15, 0), Some (18, 0), Some (21, 0), Some (19, 0)]"
proof -
  have v: "valid_datetime sample_start"
    by (simp add: valid_datetime_def sample_start_def max_ordinal_def)
  show ?thesis
    using v C3_zero_jitter_schedule [OF v] by (simp add: clock_of_def)
qed

lemma calculate_optimal_time_hour_rejected:
  assumes "8 \<le> i"
  shows "\<exists>e. calculate_optimal_time start i jitter = Inl e \<and>
             exc_class e = (if 9 + 2 * i \<le> c_int_max then ''ValueError'' else ''OverflowError'')"
proof -
  have late: "9 + i * 3 > 21" "\<not> 9 + i * 2 \<le> 23" "\<not> 9 + i * 2 < - c_int_max - 1"
    "\<not> 9 + i * 2 < - c_long_max - 1"
    using assms by (simp_all add: c_int_max_def c_long_max_def)
  have order: "c_int_max \<le> c_long_max"
    by (simp add: c_int_max_def c_long_max_def)
  show ?thesis
    using late order
    by (auto simp: calculate_optimal_time_def replace_time_def Let_def mult.commute)
qed

text \<open>
  C10 (as stated, refuted). The claim has ValueError for every index of 8 or more. From
  index 1073741820 on, the hour 9 + 2 * index no longer fits a C \<open>int\<close> and
  \<open>datetime.replace\<close> raises OverflowError instead.
\<close>

theorem C10_overflow_not_value_error:
  "calculate_optimal_time sample_start 1073741820 0 =
     Inl (PyExc ''OverflowError'' ''signed integer is greater than maximum'') \<and>
   calculate_optimal_time sample_start 1073741820 0 \<noteq>
     Inl (PyExc ''ValueError'' ''hour must be in 0..23'')"
  by (simp add: calculate_optimal_time_def replace_time_def Let_def c_int_max_def c_long_max_def)

text \<open>
  C10 (amended). The function is not total over post indices: for every index of 8 or
  more, whatever the start date and the jitter, the recomputed hour 9 + 2 * index is at
  least 25, \<open>datetime.replace\<close> raises and no timestamp is returned; the exception is
  ValueError as long as the hour fits a C \<open>int\<close> (index up to 1073741819) and OverflowError
  beyond. For index 7 (jitter 0) the result is 23:00, past the 21:00 ceiling.
\<close>

theorem C10_not_total:
  "(8 \<le> i \<longrightarrow>
      (\<exists>e. calculate_optimal_time start i jitter = Inl e \<and>
            exc_class e = (if i \<le> 1073741819 then ''ValueError'' else ''OverflowError''))) \<and>
   (8 \<le> i \<and> i \<le> 1073741819 \<longrightarrow>
      calculate_optimal_time start i jitter = Inl (PyExc ''ValueError'' ''hour must be in 0..23'')) \<and>
   (valid_datetime start \<longrightarrow>
      calculate_optimal_time start 7 0 =
        Inr (start\<lparr>hour := 23, minute := 0, second := 0, microsecond := 0\<rparr>) \<and> (23::int) > 21)"
proof (intro conjI impI; (elim conjE)?)
  assume "8 \<le> i"
  from calculate_optimal_time_hour_rejected [OF this, of start jitter]
  show "\<exists>e. calculate_optimal_time start i jitter = Inl e \<and>
            exc_class e = (if i \<le> 1073741819 then ''ValueError'' else ''OverflowError'')"
    by (auto simp: c_int_max_def split: if_splits)
next
  assume "8 \<le> i" "i \<le> 1073741819"
  then show "calculate_optimal_time start i jitter = Inl (PyExc ''ValueError'' ''hour must be in 0..23'')"
    by (simp add: calculate_optimal_time_def replace_time_def Let_def c_int_max_def c_long_max_def)
next
  assume "valid_datetime start"
  then show "calculate_optimal_time start 7 0 =
      Inr (start\<lparr>hour := 23, minute := 0, second := 0, microsecond := 0\<rparr>)"
    by (simp add: calculate_optimal_time_zero_jitter)
next
  show "(23::int) > 21" by simp
qed

theorem C10_not_total_witness:
  "(8::int) \<le> 8 \<and> (8::int) \<le> 1073741819 \<and>
   calculate_optimal_time sample_start 8 (-15) = Inl (PyExc ''ValueError'' ''hour must be in 0..23'') \<and>
   (8::int) \<le> 1073741820 \<and>
   (\<exists>e. calculate_optimal_time sample_start 1073741820 15 = Inl e \<and> exc_class e = ''OverflowError'') \<and>
   valid_datetime sample_start \<and>
   clock_of (calculate_optimal_time sample_start 7 0) = Some (23, 0)"
proof -
  have v: "valid_datetime sample_start"
    by (simp add: valid_datetime_def sample_start_def max_ordinal_def)
  show ?thesis
    using v C10_not_total [of 8 sample_start "-15"] C10_not_total [of 1073741820 sample_start 15]
    by (simp add: clock_of_def)
qed

section \<open>Content engine theorems\<close>

lemma fallback_content_shape:
  "slide_count (generate_fallback_content th t now) = Some 5"
  "psychology_concept (generate_fallback_content th t now) = ''general support''"
  "hashtags (generate_fallback_content th t now) =
     [''#ParentingTips'', ''#ParentingSupport'', ''#YouGotThis'']"
  by (simp_all add: generate_fallback_content_def slide_count_def)

lemma fallback_video_shape:
  "slide_count (generate_fallback_video th t now) = Some 4"
  "psychology_concept (generate_fallback_video th t now) = ''general support''"
  "hashtags (generate_fallback_video th t now) =
     [''#ParentingVideo'', ''#QuickTips'', ''#ParentingSupport'']"
  by (simp_all add: generate_fallback_video_def slide_count_def)

text \<open>Each sub-step that raises makes the whole \<open>try\<close> block raise.\<close>

lemma carousel_try_backend_raises:
  "call_openai env (CarouselPrompt t th c m) = Inl e \<Longrightarrow> carousel_try env th t c m = Inl e"
  by (simp add: carousel_try_def)

lemma carousel_try_parse_raises:
  "call_openai env (CarouselPrompt t th c m) = Inr r \<Longrightarrow> json_loads env r = Inl e \<Longrightarrow>
   carousel_try env th t c m = Inl e"
  by (simp add: carousel_try_def)

lemma carousel_try_visual_prompts_raise:
  "call_openai env (CarouselPrompt t th c m) = Inr r \<Longrightarrow> json_loads env r = Inr d \<Longrightarrow>
   generate_visual_prompts env d m = Inl e \<Longrightarrow> carousel_try env th t c m = Inl e"
  by (simp add: carousel_try_def)

lemma carousel_try_caption_raises:
  "call_openai env (CarouselPrompt t th c m) = Inr r \<Longrightarrow> json_loads env r = Inr d \<Longrightarrow>
   generate_visual_prompts env d m = Inr v \<Longrightarrow> generate_caption env d t th = Inl e \<Longrightarrow>
   carousel_try env th t c m = Inl e"
  by (simp add: carousel_try_def)

lemma video_try_backend_raises:
  "call_openai env (VideoPrompt t th c m) = Inl e \<Longrightarrow> video_try env th t c m = Inl e"
  by (simp add: video_try_def)

lemma video_try_parse_raises:
  "call_openai env (VideoPrompt t th c m) = Inr r \<Longrightarrow> json_loads env r = Inl e \<Longrightarrow>
   video_try env th t c m = Inl e"
  by (simp add: video_try_def)

lemma video_try_caption_raises:
  "call_openai env (VideoPrompt t th c m) = Inr r \<Longrightarrow> json_loads env r = Inr d \<Longrightarrow>
   generate_video_caption env d t = Inl e \<Longrightarrow> video_try env th t c m = Inl e"
  by (simp add: video_try_def)

lemma length_theme_hashtags: "length (theme_hashtags th) = 2"
  by (cases th) simp_all

lemma generate_hashtags_layout:
  "generate_hashtags t th v =
     base_hashtags @ (if v then video_hashtags else []) @ theme_hashtags th @ topic_hashtags t"
  by (simp add: generate_hashtags_def Let_def base_hashtags_def video_hashtags_def
      topic_hashtags_def length_theme_hashtags)

lemma length_generate_hashtags: "length (generate_hashtags t th v) \<le> 25"
  by (simp add: generate_hashtags_def Let_def)

lemma carousel_try_hashtags:
  "carousel_try env th t c m = Inr p \<Longrightarrow> hashtags p = generate_hashtags t th False"
  by (auto simp: carousel_try_def split: sum.splits)

lemma video_try_hashtags:
  "video_try env th t c m = Inr p \<Longrightarrow> hashtags p = generate_hashtags t th True"
  by (auto simp: video_try_def split: sum.splits)

lemma carousel_try_slides:
  "carousel_try env th t c m = Inr p \<Longrightarrow>
     \<exists>response content_data.
        call_openai env (CarouselPrompt t th c m) = Inr response \<and>
        json_loads env response = Inr content_data \<and>
        py_get content_data ''slides'' (PList []) = Inr (slides p)"
  by (auto simp: carousel_try_def split: sum.splits)

lemma video_try_slides:
  "video_try env th t c m = Inr p \<Longrightarrow>
     \<exists>response video_data.
        call_openai env (VideoPrompt t th c m) = Inr response \<and>
        json_loads env response = Inr video_data \<and>
        py_get video_data ''script_sections'' (PList []) = Inr (slides p)"
  by (auto simp: video_try_def split: sum.splits)

lemma failing_env_try:
  "carousel_try failing_env th t c m = Inl (PyExc ''Exception'' ''API Error'')"
  "video_try failing_env th t c m = Inl (PyExc ''Exception'' ''API Error'')"
  by (simp_all add: carousel_try_def video_try_def failing_env_def)

lemma empty_object_env_carousel:
  "carousel_try empty_object_env th t c m =
     Inr \<lparr>theme = th, content_type = CAROUSEL, title = PStr [], slides = PList [],
          caption = ''{}'', hashtags = generate_hashtags t th False,
          visual_prompts = PList [], psychology_concept = c, magical_element = m,
          target_age = ''3-10'', engagement_hooks = [], created_at = sample_start\<rparr>"
  by (simp add: carousel_try_def empty_object_env_def failing_env_def
      generate_visual_prompts_def generate_caption_def extract_hooks_def)

lemma empty_object_env_video:
  "video_try empty_object_env th t c m =
     Inr \<lparr>theme = th, content_type = VIDEO, title = PStr [], slides = PList [],
          caption = ''{}'', hashtags = generate_hashtags t th True,
          visual_prompts = PList [], psychology_concept = c, magical_element = m,
          target_age = ''3-10'', engagement_hooks = [PStr []], created_at = sample_start\<rparr>"
  by (simp add: video_try_def empty_object_env_def failing_env_def generate_video_caption_def)

lemma py_get_not_dict: "\<not> is_dict d \<Longrightarrow> \<exists>e. py_get d k dflt = Inl e"
  by (cases d) simp_all

lemma py_get_dict: "is_dict d \<Longrightarrow> \<exists>v. py_get d k dflt = Inr v"
  by (cases d) simp_all

lemma extract_hooks_not_dict_carousel:
  "\<not> is_dict d \<Longrightarrow> \<exists>e. generate_visual_prompts env d m = Inl e"
  using py_get_not_dict [of d "''title''" "PStr []"]
  by (auto simp: generate_visual_prompts_def)

lemma carousel_try_not_dict:
  assumes "call_openai env (CarouselPrompt t th c m) = Inr r" and "json_loads env r = Inr d"
    and "\<not> is_dict d"
  shows "\<exists>e. carousel_try env th t c m = Inl e"
  using assms extract_hooks_not_dict_carousel [OF assms(3), of env m]
  by (auto simp: carousel_try_def)

lemma carousel_try_hooks_raise:
  assumes "call_openai env (CarouselPrompt t th c m) = Inr r" and "json_loads env r = Inr d"
    and "extract_hooks d = Inl e"
  shows "\<exists>e'. carousel_try env th t c m = Inl e'"
  using assms by (auto simp: carousel_try_def split: sum.splits)

lemma carousel_try_success:
  assumes "call_openai env (CarouselPrompt t th c m) = Inr r" and "json_loads env r = Inr d"
    and "is_dict d" and "extract_hooks d = Inr hooks"
  shows "\<exists>p. carousel_try env th t c m = Inr p \<and>
           target_age p = ''3-10'' \<and> psychology_concept p = c \<and> magical_element p = m \<and>
           engagement_hooks p = hooks \<and>
           py_get d ''title'' (PStr []) = Inr (title p) \<and>
           py_get d ''slides'' (PList []) = Inr (slides p) \<and>
           visual_prompts p =
             (case call_openai env (VisualPrompt (title p) m) of
                Inl x \<Rightarrow> fallback_visual_prompts m
              | Inr r' \<Rightarrow>
                  (case json_loads env r' of
                     Inl x \<Rightarrow> fallback_visual_prompts m
                   | Inr prompts_data \<Rightarrow>
                       (case py_get prompts_data ''prompts'' (PList []) of
                          Inl x \<Rightarrow> fallback_visual_prompts m
                        | Inr prompts \<Rightarrow> prompts))) \<and>
           caption p = (case call_openai env (CaptionPrompt t (title p) th) of
                          Inl x \<Rightarrow> fallback_caption t | Inr s \<Rightarrow> s)"
proof -
  from assms(3) obtain kv where d: "d = PDict kv" by (cases d) simp_all
  show ?thesis
    using assms(1,2,4) unfolding d
    by (simp add: carousel_try_def generate_visual_prompts_def generate_caption_def)
qed

lemma video_try_not_dict:
  assumes "call_openai env (VideoPrompt t th c m) = Inr r" and "json_loads env r = Inr d"
    and "\<not> is_dict d"
  shows "\<exists>e. video_try env th t c m = Inl e"
  using assms py_get_not_dict [OF assms(3), of "''title''" "PStr []"]
  by (auto simp: video_try_def generate_video_caption_def)

lemma video_try_success:
  assumes "call_openai env (VideoPrompt t th c m) = Inr r" and "json_loads env r = Inr d"
    and "is_dict d"
  shows "\<exists>p. video_try env th t c m = Inr p \<and>
           target_age p = ''3-10'' \<and> psychology_concept p = c \<and> magical_element p = m \<and>
           py_get d ''title'' (PStr []) = Inr (title p) \<and>
           py_get d ''script_sections'' (PList []) = Inr (slides p) \<and>
           caption p = (case call_openai env (VideoCaptionPrompt t (title p)) of
                          Inl x \<Rightarrow> fallback_video_caption t | Inr s \<Rightarrow> s)"
proof -
  from assms(3) obtain kv where d: "d = PDict kv" by (cases d) simp_all
  show ?thesis
    using assms(1,2) unfolding d
    by (simp add: video_try_def generate_video_caption_def)
qed


lemma fallback_target_age:
  "target_age (carousel_fallback env th topic) = ''all''"
  "target_age (video_fallback env th topic) = ''all''"
  by (simp_all add: carousel_fallback_def video_fallback_def generate_fallback_content_def
      generate_fallback_video_def)

lemma generate_carousel_content_cases:
  "generate_carousel_content env th topic =
     (case carousel_try env th (resolve_topic env topic) (chosen_concept env) (chosen_element env) of
        Inl e \<Rightarrow> carousel_fallback env th topic | Inr p \<Rightarrow> p)"
  by (simp add: generate_carousel_content_def carousel_fallback_def Let_def split: sum.splits)

lemma generate_video_content_cases:
  "generate_video_content env th topic =
     (case video_try env th (resolve_topic env topic) (chosen_concept env) (chosen_element env) of
        Inl e \<Rightarrow> video_fallback env th topic | Inr p \<Rightarrow> p)"
  by (simp add: generate_video_content_def video_fallback_def Let_def split: sum.splits)

text \<open>
  C1 (as stated, refuted). Not every sub-step that raises leads to the fallback piece:
  \<open>_generate_caption\<close> and \<open>_generate_visual_prompts\<close> catch what their own backend call
  or JSON parse raises. Here the caption's backend call raises, and the function returns
  the real piece (no slides, the drawn concept) with the fixed fallback caption, not the
  fallback piece.
\<close>

theorem C1_caption_failure_absorbed:
  "call_openai caption_failing_env
     (CaptionPrompt ''test topic'' (PStr []) MAGICAL_MONDAY) = Inl (PyExc ''Exception'' ''API Error'') \<and>
   generate_carousel_content caption_failing_env MAGICAL_MONDAY (Some ''test topic'') \<noteq>
     generate_fallback_content MAGICAL_MONDAY ''test topic'' (clock_now caption_failing_env) \<and>
   psychology_concept (generate_carousel_content caption_failing_env MAGICAL_MONDAY
     (Some ''test topic'')) = ''growth mindset'' \<and>
   slide_count (generate_carousel_content caption_failing_env MAGICAL_MONDAY
     (Some ''test topic'')) = Some 0 \<and>
   caption (generate_carousel_content caption_failing_env MAGICAL_MONDAY
     (Some ''test topic'')) = fallback_caption ''test topic''"
  by (simp add: generate_carousel_content_def Let_def carousel_try_def caption_failing_env_def
      failing_env_def generate_visual_prompts_def generate_caption_def extract_hooks_def
      resolve_topic_def slide_count_def generate_fallback_content_def)

text \<open>
  C1 (amended). Single-piece generation never fails outward, and the fallback piece is
  returned exactly in these cases. For the carousel: the first backend call raises, or
  its reply does not parse as JSON, or the parsed reply is not an object (reading its
  title raises), or extracting the hooks from it raises. For the video: the first
  backend call raises, or its reply does not parse, or the parsed reply is not an object.
  The fallback carousel has exactly 5 slides and the fallback video exactly 4, both with
  psychology concept "general support". In every other case the piece built from the
  reply is returned, with the drawn concept; a failure of the backend call of the caption
  or of the visual prompts is absorbed by that sub-step, which supplies its fixed
  fallback caption or its five fixed prompts.
\<close>

theorem C1_fallback_on_primary_failure:
  "(call_openai env (carousel_prompt env th topic) = Inl e \<longrightarrow>
      generate_carousel_content env th topic = carousel_fallback env th topic) \<and>
   (call_openai env (carousel_prompt env th topic) = Inr r \<and> json_loads env r = Inl e \<longrightarrow>
      generate_carousel_content env th topic = carousel_fallback env th topic) \<and>
   (call_openai env (carousel_prompt env th topic) = Inr r \<and> json_loads env r = Inr d \<and>
    \<not> is_dict d \<longrightarrow>
      generate_carousel_content env th topic = carousel_fallback env th topic) \<and>
   (call_openai env (carousel_prompt env th topic) = Inr r \<and> json_loads env r = Inr d \<and>
    extract_hooks d = Inl e \<longrightarrow>
      generate_carousel_content env th topic = carousel_fallback env th topic) \<and>
   (call_openai env (carousel_prompt env th topic) = Inr r \<and> json_loads env r = Inr d \<and>
    is_dict d \<and> extract_hooks d = Inr hooks \<longrightarrow>
      generate_carousel_content env th topic \<noteq> carousel_fallback env th topic \<and>
      psychology_concept (generate_carousel_content env th topic) = chosen_concept env \<and>
      engagement_hooks (generate_carousel_content env th topic) = hooks \<and>
      py_get d ''slides'' (PList []) = Inr (slides (generate_carousel_content env th topic)) \<and>
      visual_prompts (generate_carousel_content env th topic) =
        (case call_openai env (VisualPrompt (title (generate_carousel_content env th topic))
                 (chosen_element env)) of
           Inl x \<Rightarrow> fallback_visual_prompts (chosen_element env)
         | Inr r' \<Rightarrow>
             (case json_loads env r' of
                Inl x \<Rightarrow> fallback_visual_prompts (chosen_element env)
              | Inr prompts_data \<Rightarrow>
                  (case py_get prompts_data ''prompts'' (PList []) of
                     Inl x \<Rightarrow> fallback_visual_prompts (chosen_element env)
                   | Inr prompts \<Rightarrow> prompts))) \<and>
      caption (generate_carousel_content env th topic) =
        (case call_openai env (CaptionPrompt (resolve_topic env topic)
                 (title (generate_carousel_content env th topic)) th) of
           Inl x \<Rightarrow> fallback_caption (resolve_topic env topic)
         | Inr s \<Rightarrow> s)) \<and>
   slide_count (carousel_fallback env th topic) = Some 5 \<and>
   psychology_concept (carousel_fallback env th topic) = ''general support'' \<and>
   (call_openai env (video_prompt env th topic) = Inl e \<longrightarrow>
      generate_video_content env th topic = video_fallback env th topic) \<and>
   (call_openai env (video_prompt env th topic) = Inr r \<and> json_loads env r = Inl e \<longrightarrow>
      generate_video_content env th topic = video_fallback env th topic) \<and>
   (call_openai env (video_prompt env th topic) = Inr r \<and> json_loads env r = Inr d \<and>
    \<not> is_dict d \<longrightarrow>
      generate_video_content env th topic = video_fallback env th topic) \<and>
   (call_openai env (video_prompt env th topic) = Inr r \<and> json_loads env r = Inr d \<and>
    is_dict d \<longrightarrow>
      generate_video_content env th topic \<noteq> video_fallback env th topic \<and>
      psychology_concept (generate_video_content env th topic) = chosen_concept env \<and>
      py_get d ''script_sections'' (PList []) = Inr (slides (generate_video_content env th topic)) \<and>
      caption (generate_video_content env th topic) =
        (case call_openai env (VideoCaptionPrompt (resolve_topic env topic)
                 (title (generate_video_content env th topic))) of
           Inl x \<Rightarrow> fallback_video_caption (resolve_topic env topic)
         | Inr s \<Rightarrow> s)) \<and>
   slide_count (video_fallback env th topic) = Some 4 \<and>
   psychology_concept (video_fallback env th topic) = ''general support''"
proof -
  let ?t = "resolve_topic env topic" and ?c = "chosen_concept env" and ?m = "chosen_element env"
  have c1: "generate_carousel_content env th topic = carousel_fallback env th topic"
    if "call_openai env (carousel_prompt env th topic) = Inl e"
    using that carousel_try_backend_raises [of env ?t th ?c ?m e]
    by (simp add: generate_carousel_content_cases carousel_prompt_def)
  have c2: "generate_carousel_content env th topic = carousel_fallback env th topic"
    if "call_openai env (carousel_prompt env th topic) = Inr r" "json_loads env r = Inl e"
    using that carousel_try_parse_raises [of env ?t th ?c ?m r e]
    by (simp add: generate_carousel_content_cases carousel_prompt_def)
  have c3: "generate_carousel_content env th topic = carousel_fallback env th topic"
    if "call_openai env (carousel_prompt env th topic) = Inr r" "json_loads env r = Inr d"
      "\<not> is_dict d"
    using that carousel_try_not_dict [of env ?t th ?c ?m r d]
    by (auto simp: generate_carousel_content_cases carousel_prompt_def)
  have c4: "generate_carousel_content env th topic = carousel_fallback env th topic"
    if "call_openai env (carousel_prompt env th topic) = Inr r" "json_loads env r = Inr d"
      "extract_hooks d = Inl e"
    using that carousel_try_hooks_raise [of env ?t th ?c ?m r d e]
    by (auto simp: generate_carousel_content_cases carousel_prompt_def)
  have c5: "generate_carousel_content env th topic \<noteq> carousel_fallback env th topic \<and>
      psychology_concept (generate_carousel_content env th topic) = chosen_concept env \<and>
      engagement_hooks (generate_carousel_content env th topic) = hooks \<and>
      py_get d ''slides'' (PList []) = Inr (slides (generate_carousel_content env th topic)) \<and>
      visual_prompts (generate_carousel_content env th topic) =
        (case call_openai env (VisualPrompt (title (generate_carousel_content env th topic))
                 (chosen_element env)) of
           Inl x \<Rightarrow> fallback_visual_prompts (chosen_element env)
         | Inr r' \<Rightarrow>
             (case json_loads env r' of
                Inl x \<Rightarrow> fallback_visual_prompts (chosen_element env)
              | Inr prompts_data \<Rightarrow>
                  (case py_get prompts_data ''prompts'' (PList []) of
                     Inl x \<Rightarrow> fallback_visual_prompts (chosen_element env)
                   | Inr prompts \<Rightarrow> prompts))) \<and>
      caption (generate_carousel_content env th topic) =
        (case call_openai env (CaptionPrompt (resolve_topic env topic)
                 (title (generate_carousel_content env th topic)) th) of
           Inl x \<Rightarrow> fallback_caption (resolve_topic env topic)
         | Inr s \<Rightarrow> s)"
    if "call_openai env (carousel_prompt env th topic) = Inr r" "json_loads env r = Inr d"
      "is_dict d" "extract_hooks d = Inr hooks"
  proof -
    from that carousel_try_success [of env ?t th ?c ?m r d hooks]
    obtain p where p: "carousel_try env th ?t ?c ?m = Inr p" "target_age p = ''3-10''"
      "psychology_concept p = ?c" "engagement_hooks p = hooks"
      "py_get d ''slides'' (PList []) = Inr (slides p)"
      "visual_prompts p =
         (case call_openai env (VisualPrompt (title p) ?m) of
            Inl x \<Rightarrow> fallback_visual_prompts ?m
          | Inr r' \<Rightarrow>
              (case json_loads env r' of
                 Inl x \<Rightarrow> fallback_visual_prompts ?m
               | Inr prompts_data \<Rightarrow>
                   (case py_get prompts_data ''prompts'' (PList []) of
                      Inl x \<Rightarrow> fallback_visual_prompts ?m
                    | Inr prompts \<Rightarrow> prompts)))"
      "caption p = (case call_openai env (CaptionPrompt ?t (title p) th) of
                      Inl x \<Rightarrow> fallback_caption ?t | Inr s \<Rightarrow> s)"
      by (auto simp: carousel_prompt_def)
    have g: "generate_carousel_content env th topic = p"
      using p(1) by (simp add: generate_carousel_content_cases)
    have "p \<noteq> carousel_fallback env th topic"
      using p(2) fallback_target_age(1) [of env th topic] by auto
    with g p show ?thesis by simp
  qed
  have v1: "generate_video_content env th topic = video_fallback env th topic"
    if "call_openai env (video_prompt env th topic) = Inl e"
    using that video_try_backend_raises [of env ?t th ?c ?m e]
    by (simp add: generate_video_content_cases video_prompt_def)
  have v2: "generate_video_content env th topic = video_fallback env th topic"
    if "call_openai env (video_prompt env th topic) = Inr r" "json_loads env r = Inl e"
    using that video_try_parse_raises [of env ?t th ?c ?m r e]
    by (simp add: generate_video_content_cases video_prompt_def)
  have v3: "generate_video_content env th topic = video_fallback env th topic"
    if "call_openai env (video_prompt env th topic) = Inr r" "json_loads env r = Inr d"
      "\<not> is_dict d"
    using that video_try_not_dict [of env ?t th ?c ?m r d]
    by (auto simp: generate_video_content_cases video_prompt_def)
  have v4: "generate_video_content env th topic \<noteq> video_fallback env th topic \<and>
      psychology_concept (generate_video_content env th topic) = chosen_concept env \<and>
      py_get d ''script_sections'' (PList []) = Inr (slides (generate_video_content env th topic)) \<and>
      caption (generate_video_content env th topic) =
        (case call_openai env (VideoCaptionPrompt (resolve_topic env topic)
                 (title (generate_video_content env th topic))) of
           Inl x \<Rightarrow> fallback_video_caption (resolve_topic env topic)
         | Inr s \<Rightarrow> s)"
    if "call_openai env (video_prompt env th topic) = Inr r" "json_loads env r = Inr d"
      "is_dict d"
  proof -
    from that video_try_success [of env ?t th ?c ?m r d]
    obtain p where p: "video_try env th ?t ?c ?m = Inr p" "target_age p = ''3-10''"
      "psychology_concept p = ?c"
      "py_get d ''script_sections'' (PList []) = Inr (slides p)"
      "caption p = (case call_openai env (VideoCaptionPrompt ?t (title p)) of
                      Inl x \<Rightarrow> fallback_video_caption ?t | Inr s \<Rightarrow> s)"
      by (auto simp: video_prompt_def)
    have g: "generate_video_content env th topic = p"
      using p(1) by (simp add: generate_video_content_cases)
    have "p \<noteq> video_fallback env th topic"
      using p(2) fallback_target_age(2) [of env th topic] by auto
    with g p show ?thesis by simp
  qed
  have shape: "slide_count (carousel_fallback env th topic) = Some 5"
    "psychology_concept (carousel_fallback env th topic) = ''general support''"
    "slide_count (video_fallback env th topic) = Some 4"
    "psychology_concept (video_fallback env th topic) = ''general support''"
    by (simp_all add: carousel_fallback_def video_fallback_def fallback_content_shape
        fallback_video_shape)
  show ?thesis
    using c1 c2 c3 c4 c5 v1 v2 v3 v4 shape by blast
qed


lemma reply_env_simps:
  "call_openai (reply_env r) p = Inr r"
  "json_loads (reply_env r) = sample_loads"
  by (simp_all add: reply_env_def)

lemma sample_loads_simps:
  "sample_loads ''{}'' = Inr (PDict [])"
  "sample_loads ''[]'' = Inr (PList [])"
  "sample_loads slides_five_text = Inr (PDict [(''slides'', PInt 5)])"
  "sample_loads ''oops'' = Inl (PyExc ''JSONDecodeError'' ''Expecting value: line 1 column 1 (char 0)'')"
  by (simp_all add: sample_loads_def slides_five_text_def)

lemma extract_hooks_samples:
  "extract_hooks (PDict []) = Inr []"
  "extract_hooks (PDict [(''slides'', PInt 5)]) =
     Inl (PyExc ''TypeError'' (quoted ''int'' @ '' object is not subscriptable''))"
  by (simp_all add: extract_hooks_def)

theorem C1_fallback_on_primary_failure_witness:
  "call_openai failing_env (carousel_prompt failing_env MAGICAL_MONDAY (Some ''test topic'')) =
     Inl (PyExc ''Exception'' ''API Error'') \<and>
   generate_carousel_content failing_env MAGICAL_MONDAY (Some ''test topic'') =
     carousel_fallback failing_env MAGICAL_MONDAY (Some ''test topic'') \<and>
   generate_video_content failing_env MAGICAL_MONDAY (Some ''test topic'') =
     video_fallback failing_env MAGICAL_MONDAY (Some ''test topic'') \<and>
   json_loads (reply_env ''oops'') ''oops'' =
     Inl (PyExc ''JSONDecodeError'' ''Expecting value: line 1 column 1 (char 0)'') \<and>
   generate_carousel_content (reply_env ''oops'') MAGICAL_MONDAY None =
     carousel_fallback (reply_env ''oops'') MAGICAL_MONDAY None \<and>
   generate_video_content (reply_env ''oops'') MAGICAL_MONDAY None =
     video_fallback (reply_env ''oops'') MAGICAL_MONDAY None \<and>
   json_loads (reply_env ''[]'') ''[]'' = Inr (PList []) \<and> \<not> is_dict (PList []) \<and>
   generate_carousel_content (reply_env ''[]'') MAGICAL_MONDAY None =
     carousel_fallback (reply_env ''[]'') MAGICAL_MONDAY None \<and>
   generate_video_content (reply_env ''[]'') MAGICAL_MONDAY None =
     video_fallback (reply_env ''[]'') MAGICAL_MONDAY None \<and>
   json_loads (reply_env slides_five_text) slides_five_text = Inr (PDict [(''slides'', PInt 5)]) \<and>
   extract_hooks (PDict [(''slides'', PInt 5)]) =
     Inl (PyExc ''TypeError'' (quoted ''int'' @ '' object is not subscriptable'')) \<and>
   generate_carousel_content (reply_env slides_five_text) MAGICAL_MONDAY None =
     carousel_fallback (reply_env slides_five_text) MAGICAL_MONDAY None \<and>
   json_loads (reply_env ''{}'') ''{}'' = Inr (PDict []) \<and> is_dict (PDict []) \<and>
   extract_hooks (PDict []) = Inr [] \<and>
   generate_carousel_content (reply_env ''{}'') MAGICAL_MONDAY None \<noteq>
     carousel_fallback (reply_env ''{}'') MAGICAL_MONDAY None \<and>
   psychology_concept (generate_carousel_content (reply_env ''{}'') MAGICAL_MONDAY None) =
     ''growth mindset'' \<and>
   generate_video_content (reply_env ''{}'') MAGICAL_MONDAY None \<noteq>
     video_fallback (reply_env ''{}'') MAGICAL_MONDAY None \<and>
   slide_count (carousel_fallback failing_env MAGICAL_MONDAY (Some ''test topic'')) = Some 5 \<and>
   slide_count (video_fallback failing_env MAGICAL_MONDAY (Some ''test topic'')) = Some 4"
proof -
  let ?boom = "PyExc ''Exception'' ''API Error''"
  let ?bad = "PyExc ''JSONDecodeError'' ''Expecting value: line 1 column 1 (char 0)''"
  let ?ty = "PyExc ''TypeError'' (quoted ''int'' @ '' object is not subscriptable'')"
  have f: "call_openai failing_env p = Inl ?boom" for p
    by (simp add: failing_env_def)
  have concept: "chosen_concept (reply_env ''{}'') = ''growth mindset''"
    by (simp add: reply_env_def failing_env_def)
  note a = C1_fallback_on_primary_failure
    [of failing_env MAGICAL_MONDAY "Some ''test topic''" ?boom]
  note b = C1_fallback_on_primary_failure
    [of "reply_env ''oops''" MAGICAL_MONDAY None ?bad "''oops''"]
  note c = C1_fallback_on_primary_failure
    [of "reply_env ''[]''" MAGICAL_MONDAY None _ "''[]''" "PList []"]
  note d = C1_fallback_on_primary_failure
    [of "reply_env slides_five_text" MAGICAL_MONDAY None ?ty slides_five_text
      "PDict [(''slides'', PInt 5)]"]
  note e = C1_fallback_on_primary_failure
    [of "reply_env ''{}''" MAGICAL_MONDAY None _ "''{}''" "PDict []" "[]"]
  from a have a': "generate_carousel_content failing_env MAGICAL_MONDAY (Some ''test topic'') =
      carousel_fallback failing_env MAGICAL_MONDAY (Some ''test topic'')"
    "generate_video_content failing_env MAGICAL_MONDAY (Some ''test topic'') =
      video_fallback failing_env MAGICAL_MONDAY (Some ''test topic'')"
    "slide_count (carousel_fallback failing_env MAGICAL_MONDAY (Some ''test topic'')) = Some 5"
    "slide_count (video_fallback failing_env MAGICAL_MONDAY (Some ''test topic'')) = Some 4"
    by (simp_all add: f)
  from b have b': "generate_carousel_content (reply_env ''oops'') MAGICAL_MONDAY None =
      carousel_fallback (reply_env ''oops'') MAGICAL_MONDAY None"
    "generate_video_content (reply_env ''oops'') MAGICAL_MONDAY None =
      video_fallback (reply_env ''oops'') MAGICAL_MONDAY None"
    by (simp_all add: reply_env_simps sample_loads_simps)
  from c have c': "generate_carousel_content (reply_env ''[]'') MAGICAL_MONDAY None =
      carousel_fallback (reply_env ''[]'') MAGICAL_MONDAY None"
    "generate_video_content (reply_env ''[]'') MAGICAL_MONDAY None =
      video_fallback (reply_env ''[]'') MAGICAL_MONDAY None"
    by (simp_all add: reply_env_simps sample_loads_simps)
  from d have d': "generate_carousel_content (reply_env slides_five_text) MAGICAL_MONDAY None =
      carousel_fallback (reply_env slides_five_text) MAGICAL_MONDAY None"
    by (simp add: reply_env_simps sample_loads_simps extract_hooks_samples)
  from e have e': "generate_carousel_content (reply_env ''{}'') MAGICAL_MONDAY None \<noteq>
      carousel_fallback (reply_env ''{}'') MAGICAL_MONDAY None"
    "psychology_concept (generate_carousel_content (reply_env ''{}'') MAGICAL_MONDAY None) =
      ''growth mindset''"
    "generate_video_content (reply_env ''{}'') MAGICAL_MONDAY None \<noteq>
      video_fallback (reply_env ''{}'') MAGICAL_MONDAY None"
    by (simp_all add: reply_env_simps sample_loads_simps extract_hooks_samples concept)
  show ?thesis
    using a' b' c' d' e'
    by (simp add: f reply_env_simps sample_loads_simps extract_hooks_samples)
qed


text \<open>
  C6 (as stated, refuted). The claim covers fallback pieces too, but the fallback carousel
  carries three fixed tags, so its hashtag list does not begin with the 9 base tags.
\<close>

theorem C6_fallback_lacks_base_tags:
  "hashtags (generate_carousel_content failing_env MAGICAL_MONDAY (Some ''test topic'')) =
     [''#ParentingTips'', ''#ParentingSupport'', ''#YouGotThis''] \<and>
   take 9 (hashtags (generate_carousel_content failing_env MAGICAL_MONDAY (Some ''test topic''))) \<noteq>
     base_hashtags"
  by (simp add: generate_carousel_content_def Let_def failing_env_try fallback_content_shape
      base_hashtags_def)

text \<open>
  C6 (amended). Every piece the generator returns (real or fallback, carousel or video,
  any theme and topic) has at most 25 hashtags. The list built by \<open>_generate_hashtags\<close> is
  the 9 base tags, then the 3 video tags for a video, then the 2 theme tags, then the 2
  topic tags, so its first 9 entries are the base tags in order and base and theme tags
  precede the topic tags; every piece from the successful path carries exactly that list.
\<close>

theorem C6_hashtag_layout:
  "length (hashtags (generate_carousel_content env th topic)) \<le> 25 \<and>
   length (hashtags (generate_video_content env th topic)) \<le> 25 \<and>
   generate_hashtags t th v =
     base_hashtags @ (if v then video_hashtags else []) @ theme_hashtags th @ topic_hashtags t \<and>
   take 9 (generate_hashtags t th v) = base_hashtags \<and>
   length base_hashtags = 9 \<and>
   (carousel_try env th (resolve_topic env topic) (chosen_concept env) (chosen_element env) = Inr p \<longrightarrow>
      hashtags (generate_carousel_content env th topic) =
        generate_hashtags (resolve_topic env topic) th False) \<and>
   (video_try env th (resolve_topic env topic) (chosen_concept env) (chosen_element env) = Inr q \<longrightarrow>
      hashtags (generate_video_content env th topic) =
        generate_hashtags (resolve_topic env topic) th True)"
proof (intro conjI impI)
  show "length (hashtags (generate_carousel_content env th topic)) \<le> 25"
    by (auto simp: generate_carousel_content_def Let_def fallback_content_shape
        length_generate_hashtags split: sum.splits dest: carousel_try_hashtags)
  show "length (hashtags (generate_video_content env th topic)) \<le> 25"
    by (auto simp: generate_video_content_def Let_def fallback_video_shape
        length_generate_hashtags split: sum.splits dest: video_try_hashtags)
  show "generate_hashtags t th v =
      base_hashtags @ (if v then video_hashtags else []) @ theme_hashtags th @ topic_hashtags t"
    by (rule generate_hashtags_layout)
  show "take 9 (generate_hashtags t th v) = base_hashtags"
    by (simp add: generate_hashtags_layout) (simp add: base_hashtags_def)
  show "length base_hashtags = 9"
    by (simp add: base_hashtags_def)
next
  assume "carousel_try env th (resolve_topic env topic) (chosen_concept env) (chosen_element env) = Inr p"
  then show "hashtags (generate_carousel_content env th topic) =
      generate_hashtags (resolve_topic env topic) th False"
    by (simp add: generate_carousel_content_def Let_def carousel_try_hashtags)
next
  assume "video_try env th (resolve_topic env topic) (chosen_concept env) (chosen_element env) = Inr q"
  then show "hashtags (generate_video_content env th topic) =
      generate_hashtags (resolve_topic env topic) th True"
    by (simp add: generate_video_content_def Let_def video_try_hashtags)
qed

theorem C6_hashtag_layout_witness:
  "(\<exists>p. carousel_try empty_object_env STORY_SATURDAY (resolve_topic empty_object_env None)
          (chosen_concept empty_object_env) (chosen_element empty_object_env) = Inr p) \<and>
   (\<exists>q. video_try empty_object_env STORY_SATURDAY (resolve_topic empty_object_env None)
          (chosen_concept empty_object_env) (chosen_element empty_object_env) = Inr q) \<and>
   hashtags (generate_carousel_content empty_object_env STORY_SATURDAY None) =
     base_hashtags @ [''#StorySaturday'', ''#FamilyTime'', ''#toddlertantrums'', ''#toddlerTipstantrums''] \<and>
   hashtags (generate_video_content empty_object_env STORY_SATURDAY None) =
     base_hashtags @ video_hashtags @
       [''#StorySaturday'', ''#FamilyTime'', ''#toddlertantrums'', ''#toddlerTipstantrums'']"
proof -
  let ?p = "generate_carousel_content empty_object_env STORY_SATURDAY None"
  let ?q = "generate_video_content empty_object_env STORY_SATURDAY None"
  have p: "carousel_try empty_object_env STORY_SATURDAY (resolve_topic empty_object_env None)
      (chosen_concept empty_object_env) (chosen_element empty_object_env) = Inr ?p"
    by (simp add: generate_carousel_content_def Let_def empty_object_env_carousel)
  have q: "video_try empty_object_env STORY_SATURDAY (resolve_topic empty_object_env None)
      (chosen_concept empty_object_env) (chosen_element empty_object_env) = Inr ?q"
    by (simp add: generate_video_content_def Let_def empty_object_env_video)
  have t: "topic_hashtags (resolve_topic empty_object_env None) =
      [''#toddlertantrums'', ''#toddlerTipstantrums'']"
    by (simp add: resolve_topic_def empty_object_env_def failing_env_def topic_hashtags_def
        replace_char_def)
  from p q t show ?thesis
    using C6_hashtag_layout [of empty_object_env STORY_SATURDAY None
        "resolve_topic empty_object_env None" False ?p ?q]
      C6_hashtag_layout [of empty_object_env STORY_SATURDAY None
        "resolve_topic empty_object_env None" True ?p ?q]
    by auto
qed

text \<open>
  C8. The code breaks the claim on the successful backend path. The docstring promises a
  5-slide carousel and the prompt asks for an array of 5 slides, but the slide list is
  read out of the parsed reply and its length is never checked: a backend that answers
  \<open>{}\<close> yields a carousel with no slides, and a video with no slides.
\<close>

theorem C8_success_path_slides_unchecked:
  "slide_count (generate_carousel_content empty_object_env MAGICAL_MONDAY (Some ''test topic'')) = Some 0 \<and>
   slide_count (generate_video_content empty_object_env MAGICAL_MONDAY (Some ''test topic'')) = Some 0"
  by (simp add: generate_carousel_content_def generate_video_content_def Let_def
      empty_object_env_carousel empty_object_env_video slide_count_def)

text \<open>
  Where the slides of a returned piece come from: the fallback path gives exactly 5
  (carousel) or 4 (video); the successful path gives whatever the parsed reply holds under
  \<open>slides\<close> or \<open>script_sections\<close>, the empty list when the key is absent.
\<close>

lemma slides_by_path:
  "(carousel_try env th (resolve_topic env topic) (chosen_concept env) (chosen_element env) = Inl e \<longrightarrow>
      slide_count (generate_carousel_content env th topic) = Some 5) \<and>
   (video_try env th (resolve_topic env topic) (chosen_concept env) (chosen_element env) = Inl e \<longrightarrow>
      slide_count (generate_video_content env th topic) = Some 4) \<and>
   (carousel_try env th (resolve_topic env topic) (chosen_concept env) (chosen_element env) = Inr p \<longrightarrow>
      (\<exists>response content_data.
          call_openai env (CarouselPrompt (resolve_topic env topic) th (chosen_concept env)
            (chosen_element env)) = Inr response \<and>
          json_loads env response = Inr content_data \<and>
          py_get content_data ''slides'' (PList []) =
            Inr (slides (generate_carousel_content env th topic)))) \<and>
   (video_try env th (resolve_topic env topic) (chosen_concept env) (chosen_element env) = Inr q \<longrightarrow>
      (\<exists>response video_data.
          call_openai env (VideoPrompt (resolve_topic env topic) th (chosen_concept env)
            (chosen_element env)) = Inr response \<and>
          json_loads env response = Inr video_data \<and>
          py_get video_data ''script_sections'' (PList []) =
            Inr (slides (generate_video_content env th topic))))"
proof (intro conjI impI)
  assume "carousel_try env th (resolve_topic env topic) (chosen_concept env) (chosen_element env) = Inl e"
  then show "slide_count (generate_carousel_content env th topic) = Some 5"
    by (simp add: generate_carousel_content_def Let_def fallback_content_shape)
next
  assume "video_try env th (resolve_topic env topic) (chosen_concept env) (chosen_element env) = Inl e"
  then show "slide_count (generate_video_content env th topic) = Some 4"
    by (simp add: generate_video_content_def Let_def fallback_video_shape)
next
  assume ok: "carousel_try env th (resolve_topic env topic) (chosen_concept env) (chosen_element env) = Inr p"
  then have "generate_carousel_content env th topic = p"
    by (simp add: generate_carousel_content_def Let_def)
  with carousel_try_slides [OF ok]
  show "\<exists>response content_data.
          call_openai env (CarouselPrompt (resolve_topic env topic) th (chosen_concept env)
            (chosen_element env)) = Inr response \<and>
          json_loads env response = Inr content_data \<and>
          py_get content_data ''slides'' (PList []) =
            Inr (slides (generate_carousel_content env th topic))"
    by simp
next
  assume ok: "video_try env th (resolve_topic env topic) (chosen_concept env) (chosen_element env) = Inr q"
  then have "generate_video_content env th topic = q"
    by (simp add: generate_video_content_def Let_def)
  with video_try_slides [OF ok]
  show "\<exists>response video_data.
          call_openai env (VideoPrompt (resolve_topic env topic) th (chosen_concept env)
            (chosen_element env)) = Inr response \<and>
          json_loads env response = Inr video_data \<and>
          py_get video_data ''script_sections'' (PList []) =
            Inr (slides (generate_video_content env th topic))"
    by simp
qed


section \<open>Publishing client theorems\<close>

lemma media_caption_list: "media_caption (PList xs) i = Inr (slide_caption xs i)"
  by (simp add: media_caption_def slide_caption_def)

lemma create_media_no_publish:
  "\<forall>r\<in>set reqs. \<not> is_publish r \<Longrightarrow>
   \<forall>r\<in>set (snd (create_media pf sl us i ids reqs)). \<not> is_publish r"
proof (induction us arbitrary: i ids reqs)
  case Nil
  then show ?case by simp
next
  case (Cons u us)
  show ?case
  proof (cases "media_caption sl i")
    case (Inl e)
    with Cons.prems show ?thesis by simp
  next
    case cap: (Inr c)
    have ext: "\<forall>r\<in>set (reqs @ [CreateMedia u c]). \<not> is_publish r"
      using Cons.prems by simp
    show ?thesis
    proof (cases "pf (length reqs)")
      case (Inl e)
      with cap ext show ?thesis by simp
    next
      case resp: (Inr r)
      show ?thesis
      proof (cases "status_code r = 200")
        case False
        with cap resp ext show ?thesis by simp
      next
        case True
        show ?thesis
        proof (cases "response_id r")
          case (Inl e)
          with cap resp True ext show ?thesis by simp
        next
          case (Inr v)
          with cap resp True Cons.IH [OF ext] show ?thesis by simp
        qed
      qed
    qed
  qed
qed

lemma create_media_done_all_ok:
  "create_media pf sl us i ids reqs = (Inr (Inr mids), reqs') \<Longrightarrow>
   j < length us \<Longrightarrow> media_ok (pf (length reqs + j))"
proof (induction us arbitrary: i ids reqs j)
  case Nil
  then show ?case by simp
next
  case (Cons u us)
  from Cons.prems(1) obtain c r v where
    c: "media_caption sl i = Inr c" and r: "pf (length reqs) = Inr r"
    and s: "status_code r = 200" and v: "response_id r = Inr v"
    and rest: "create_media pf sl us (i + 1) (ids @ [v]) (reqs @ [CreateMedia u c]) = (Inr (Inr mids), reqs')"
    by (auto split: sum.splits if_splits)
  show ?case
  proof (cases j)
    case 0
    with r s v show ?thesis by (simp add: media_ok_def)
  next
    case (Suc j')
    with Cons.prems(2) have "j' < length us" by simp
    from Cons.IH [OF rest this] Suc show ?thesis by simp
  qed
qed

lemma media_ok_not_failed: "media_ok x \<Longrightarrow> \<not> media_failed x"
  by (auto simp: media_ok_def media_failed_def split: sum.splits)

lemma create_media_first_failure:
  "k < length us \<Longrightarrow> (\<And>j. j < k \<Longrightarrow> media_ok (pf (length reqs + j))) \<Longrightarrow>
   pf (length reqs + k) = Inr r \<Longrightarrow> status_code r \<noteq> 200 \<Longrightarrow>
   create_media pf (PList xs) us i ids reqs =
     (Inr (Inl (''Media creation failed: '' @ text_of r)),
      reqs @ map (\<lambda>j. CreateMedia (us ! j) (slide_caption xs (i + j))) [0..<Suc k])"
proof (induction us arbitrary: k i ids reqs)
  case Nil
  then show ?case by simp
next
  case (Cons u us)
  show ?case
  proof (cases k)
    case 0
    with Cons.prems show ?thesis by (simp add: media_caption_list)
  next
    case (Suc k')
    have "media_ok (pf (length reqs))"
      using Cons.prems(2) [of 0] Suc by simp
    then obtain r0 v where r0: "pf (length reqs) = Inr r0" "status_code r0 = 200"
      "response_id r0 = Inr v"
      by (auto simp: media_ok_def split: sum.splits)
    have k': "k' < length us" using Cons.prems(1) Suc by simp
    have oks: "\<And>j. j < k' \<Longrightarrow> media_ok (pf (length (reqs @ [CreateMedia u (slide_caption xs i)]) + j))"
      using Cons.prems(2) Suc by (metis Suc_less_eq add_Suc_shift length_append_singleton)
    have at: "pf (length (reqs @ [CreateMedia u (slide_caption xs i)]) + k') = Inr r"
      using Cons.prems(3) Suc by simp
    have step: "create_media pf (PList xs) (u # us) i ids reqs =
        create_media pf (PList xs) us (i + 1) (ids @ [v]) (reqs @ [CreateMedia u (slide_caption xs i)])"
      using r0 by (simp add: media_caption_list)
    have shift: "map (\<lambda>j. CreateMedia ((u # us) ! j) (slide_caption xs (i + j))) [0..<Suc (Suc k')] =
        CreateMedia u (slide_caption xs i) #
        map (\<lambda>j. CreateMedia (us ! j) (slide_caption xs (i + 1 + j))) [0..<Suc k']"
      by (subst map_upt_Suc) simp
    show ?thesis
      unfolding step Suc shift
      using Cons.IH [OF k' oks at Cons.prems(4), of "i + 1" "ids @ [v]"] by simp
  qed
qed

lemma create_media_all_ok:
  "(\<And>j. j < length us \<Longrightarrow> media_ok (pf (length reqs + j))) \<Longrightarrow>
   create_media pf (PList xs) us i ids reqs =
     (Inr (Inr (ids @ map (\<lambda>j. media_id_at pf (length reqs + j)) [0..<length us])),
      reqs @ map (\<lambda>j. CreateMedia (us ! j) (slide_caption xs (i + j))) [0..<length us])"
proof (induction us arbitrary: i ids reqs)
  case Nil
  then show ?case by simp
next
  case (Cons u us)
  have "media_ok (pf (length reqs))"
    using Cons.prems [of 0] by simp
  then obtain r0 v where r0: "pf (length reqs) = Inr r0" "status_code r0 = 200"
    "response_id r0 = Inr v"
    by (auto simp: media_ok_def split: sum.splits)
  then have v: "media_id_at pf (length reqs) = v"
    by (simp add: media_id_at_def)
  have oks: "\<And>j. j < length us \<Longrightarrow>
      media_ok (pf (length (reqs @ [CreateMedia u (slide_caption xs i)]) + j))"
    using Cons.prems by (metis Suc_less_eq add_Suc_shift length_Cons length_append_singleton)
  have step: "create_media pf (PList xs) (u # us) i ids reqs =
      create_media pf (PList xs) us (i + 1) (ids @ [v]) (reqs @ [CreateMedia u (slide_caption xs i)])"
    using r0 by (simp add: media_caption_list)
  have shift1: "map (\<lambda>j. CreateMedia ((u # us) ! j) (slide_caption xs (i + j))) [0..<length (u # us)] =
      CreateMedia u (slide_caption xs i) #
      map (\<lambda>j. CreateMedia (us ! j) (slide_caption xs (i + 1 + j))) [0..<length us]"
    by (simp del: upt_Suc add: map_upt_Suc)
  have shift2: "map (\<lambda>j. media_id_at pf (length reqs + j)) [0..<length (u # us)] =
      v # map (\<lambda>j. media_id_at pf (length (reqs @ [CreateMedia u (slide_caption xs i)]) + j)) [0..<length us]"
    using v by (simp del: upt_Suc add: map_upt_Suc)
  show ?case
    unfolding step shift1 shift2
    using Cons.IH [OF oks, of "i + 1" "ids @ [v]"] by simp
qed


lemma create_media_first_raise:
  "k < length us \<Longrightarrow> (\<And>j. j < k \<Longrightarrow> media_ok (pf (length reqs + j))) \<Longrightarrow>
   pf (length reqs + k) = Inl e \<Longrightarrow>
   create_media pf (PList xs) us i ids reqs =
     (Inl e, reqs @ map (\<lambda>j. CreateMedia (us ! j) (slide_caption xs (i + j))) [0..<Suc k])"
proof (induction us arbitrary: k i ids reqs)
  case Nil
  then show ?case by simp
next
  case (Cons u us)
  show ?case
  proof (cases k)
    case 0
    with Cons.prems show ?thesis by (simp add: media_caption_list)
  next
    case (Suc k')
    have "media_ok (pf (length reqs))"
      using Cons.prems(2) [of 0] Suc by simp
    then obtain r0 v where r0: "pf (length reqs) = Inr r0" "status_code r0 = 200"
      "response_id r0 = Inr v"
      by (auto simp: media_ok_def split: sum.splits)
    have k': "k' < length us" using Cons.prems(1) Suc by simp
    have oks: "\<And>j. j < k' \<Longrightarrow> media_ok (pf (length (reqs @ [CreateMedia u (slide_caption xs i)]) + j))"
      using Cons.prems(2) Suc by (metis Suc_less_eq add_Suc_shift length_append_singleton)
    have at: "pf (length (reqs @ [CreateMedia u (slide_caption xs i)]) + k') = Inl e"
      using Cons.prems(3) Suc by simp
    have step: "create_media pf (PList xs) (u # us) i ids reqs =
        create_media pf (PList xs) us (i + 1) (ids @ [v]) (reqs @ [CreateMedia u (slide_caption xs i)])"
      using r0 by (simp add: media_caption_list)
    have shift: "map (\<lambda>j. CreateMedia ((u # us) ! j) (slide_caption xs (i + j))) [0..<Suc (Suc k')] =
        CreateMedia u (slide_caption xs i) #
        map (\<lambda>j. CreateMedia (us ! j) (slide_caption xs (i + 1 + j))) [0..<Suc k']"
      by (subst map_upt_Suc) simp
    show ?thesis
      unfolding step Suc shift
      using Cons.IH [OF k' oks at, of "i + 1" "ids @ [v]"] by simp
  qed
qed

lemma publish_carousel_media_failure:
  "(k < length image_urls \<and> media_failed (pf k) \<longrightarrow>
      is_error (result_of (publish_carousel p now woke pf content image_urls)) \<and>
      (\<forall>r\<in>set (requests_of (publish_carousel p now woke pf content image_urls)). \<not> is_publish r)) \<and>
   (k < length image_urls \<and> (\<forall>j<k. media_ok (pf j)) \<and> pf k = Inr resp \<and>
    status_code resp \<noteq> 200 \<and> slides content = PList xs \<longrightarrow>
      result_of (publish_carousel p now woke pf content image_urls) =
        PublishError (''Media creation failed: '' @ text_of resp) \<and>
      requests_of (publish_carousel p now woke pf content image_urls) =
        map (\<lambda>j. CreateMedia (image_urls ! j) (slide_caption xs j)) [0..<Suc k])"
proof (intro conjI impI; (elim conjE)?)
  assume k: "k < length image_urls" and f: "media_failed (pf k)"
  obtain x reqs where cm: "create_media pf (slides content) image_urls 0 [] [] = (x, reqs)"
    by (cases "create_media pf (slides content) image_urls 0 [] []") auto
  have np: "\<forall>r\<in>set reqs. \<not> is_publish r"
    using create_media_no_publish [of "[]" pf "slides content" image_urls 0 "[]"] cm by simp
  have "\<not> (\<exists>ids. x = Inr (Inr ids))"
  proof
    assume "\<exists>ids. x = Inr (Inr ids)"
    then obtain ids where "x = Inr (Inr ids)" by blast
    with cm create_media_done_all_ok [of pf "slides content" image_urls 0 "[]" "[]" ids reqs k] k
    have "media_ok (pf k)" by simp
    with f show False by (simp add: media_ok_not_failed)
  qed
  then have "(\<exists>e. x = Inl e) \<or> (\<exists>msg. x = Inr (Inl msg))"
    by (cases x) (auto, metis sum.exhaust)
  with cm np show "is_error (result_of (publish_carousel p now woke pf content image_urls))"
    and "\<forall>r\<in>set (requests_of (publish_carousel p now woke pf content image_urls)). \<not> is_publish r"
    by (auto simp: publish_carousel_def result_of_def requests_of_def is_error_def Let_def)
next
  assume k: "k < length image_urls" and ok: "\<forall>j<k. media_ok (pf j)" and r: "pf k = Inr resp"
    and s: "status_code resp \<noteq> 200" and sl: "slides content = PList xs"
  have cm: "create_media pf (PList xs) image_urls 0 [] [] =
      (Inr (Inl (''Media creation failed: '' @ text_of resp)),
       [] @ map (\<lambda>j. CreateMedia (image_urls ! j) (slide_caption xs (0 + j))) [0..<Suc k])"
    using ok r by (intro create_media_first_failure [OF k _ _ s]) simp_all
  with sl show "result_of (publish_carousel p now woke pf content image_urls) =
        PublishError (''Media creation failed: '' @ text_of resp)"
    and "requests_of (publish_carousel p now woke pf content image_urls) =
        map (\<lambda>j. CreateMedia (image_urls ! j) (slide_caption xs j)) [0..<Suc k]"
    by (simp_all add: publish_carousel_def result_of_def requests_of_def Let_def del: upt_Suc)
qed


lemma sample_third_fails:
  "media_ok (third_fails_platform 0)" "media_ok (third_fails_platform (Suc 0))"
  "third_fails_platform 2 = Inr bad_response" "status_code bad_response \<noteq> 200"
  "media_failed (third_fails_platform 2)"
  by (simp_all add: third_fails_platform_def media_ok_def media_failed_def ok_response_def
      bad_response_def response_id_def)

lemma sample_third_raises:
  "media_ok (third_raises_platform 0)" "media_ok (third_raises_platform (Suc 0))"
  "third_raises_platform 2 = Inl (PyExc ''ConnectionError'' ''boom'')"
  "media_failed (third_raises_platform 2)"
  by (simp_all add: third_raises_platform_def media_ok_def media_failed_def ok_response_def
      response_id_def)

lemma sample_publish_state:
  "fst (publish_carousel sample_publisher 2000 2000 pf content urls) =
     sample_publisher\<lparr>request_count := 1\<rparr>"
  by (simp add: publish_carousel_def Let_def check_rate_limit_def sample_publisher_def
      hour_us_def split: prod.splits sum.splits)

lemma sample_three_requests:
  "map (\<lambda>j. CreateMedia (five_urls ! j) (slide_caption five_slides j)) [0..<Suc 2] =
     [CreateMedia ''u0'' (PStr ''s0''), CreateMedia ''u1'' (PStr ''s1''),
      CreateMedia ''u2'' (PStr ''s2'')]"
  "map (\<lambda>j. CreateMedia (five_urls ! j) (slide_caption five_slides j)) [0..<3] =
     [CreateMedia ''u0'' (PStr ''s0''), CreateMedia ''u1'' (PStr ''s1''),
      CreateMedia ''u2'' (PStr ''s2'')]"
proof -
  have "[0..<Suc 2] = [0, 1, 2]" "[0..<3] = [0, 1, 2]"
    by (simp_all add: numeral_2_eq_2 numeral_3_eq_3)
  then show
    "map (\<lambda>j. CreateMedia (five_urls ! j) (slide_caption five_slides j)) [0..<Suc 2] =
       [CreateMedia ''u0'' (PStr ''s0''), CreateMedia ''u1'' (PStr ''s1''),
        CreateMedia ''u2'' (PStr ''s2'')]"
    "map (\<lambda>j. CreateMedia (five_urls ! j) (slide_caption five_slides j)) [0..<3] =
       [CreateMedia ''u0'' (PStr ''s0''), CreateMedia ''u1'' (PStr ''s1''),
        CreateMedia ''u2'' (PStr ''s2'')]"
    by (simp_all add: five_urls_def five_slides_def slide_caption_def)
qed

text \<open>
  C2 (as stated, refuted). When the third of five media-creation calls fails by raising,
  the returned error is only the text of the exception (\<open>{"error": str(e)}\<close> from the
  \<open>except\<close> clause): nothing in it refers to the media-creation step.
\<close>

theorem C2_raise_gives_bare_error:
  "publish_carousel sample_publisher 2000 2000 third_raises_platform
     (sample_piece five_slides) five_urls =
     (sample_publisher\<lparr>request_count := 1\<rparr>,
      PublishError ''boom'',
      [CreateMedia ''u0'' (PStr ''s0''), CreateMedia ''u1'' (PStr ''s1''),
       CreateMedia ''u2'' (PStr ''s2'')])"
proof -
  have cm: "create_media third_raises_platform (PList five_slides) five_urls 0 [] [] =
      (Inl (PyExc ''ConnectionError'' ''boom''),
       [] @ map (\<lambda>j. CreateMedia (five_urls ! j) (slide_caption five_slides (0 + j))) [0..<Suc 2])"
  proof (rule create_media_first_raise)
    show "2 < length five_urls" by (simp add: five_urls_def)
    show "media_ok (third_raises_platform (length ([]::request list) + j))" if "j < 2" for j
      using that sample_third_raises(1,2) by (cases j) (auto simp: less_Suc_eq numeral_2_eq_2)
    show "third_raises_platform (length ([]::request list) + 2) = Inl (PyExc ''ConnectionError'' ''boom'')"
      by (simp add: third_raises_platform_def)
  qed
  have "snd (publish_carousel sample_publisher 2000 2000 third_raises_platform
      (sample_piece five_slides) five_urls) =
     (PublishError ''boom'',
      map (\<lambda>j. CreateMedia (five_urls ! j) (slide_caption five_slides j)) [0..<Suc 2])"
    using cm by (simp add: publish_carousel_def Let_def sample_piece_def del: upt_Suc)
  then show ?thesis
    using sample_publish_state [of third_raises_platform "sample_piece five_slides" five_urls]
    by (simp add: sample_three_requests prod_eq_iff)
qed

text \<open>
  C2 (amended). For every piece, asset-URL list, platform behaviour and limiter state: if
  the media-creation call for some asset fails (it raises, or answers with a status other
  than 200), \<open>publish_carousel\<close> returns an error result and issues no \<open>media_publish\<close>
  request at all, so the carousel is never committed. When that call is the first to
  fail and the slides are a list, the requests issued are exactly the media creations up
  to and including the failed one, and the error is "Media creation failed: " followed by
  the response text if the call failed by its status, and the bare text of the exception
  if the call failed by raising.
\<close>

theorem C2_media_failure_aborts:
  "(k < length image_urls \<and> media_failed (pf k) \<longrightarrow>
      is_error (result_of (publish_carousel p now woke pf content image_urls)) \<and>
      (\<forall>r\<in>set (requests_of (publish_carousel p now woke pf content image_urls)). \<not> is_publish r)) \<and>
   (k < length image_urls \<and> (\<forall>j<k. media_ok (pf j)) \<and> pf k = Inr resp \<and>
    status_code resp \<noteq> 200 \<and> slides content = PList xs \<longrightarrow>
      result_of (publish_carousel p now woke pf content image_urls) =
        PublishError (''Media creation failed: '' @ text_of resp) \<and>
      requests_of (publish_carousel p now woke pf content image_urls) =
        map (\<lambda>j. CreateMedia (image_urls ! j) (slide_caption xs j)) [0..<Suc k]) \<and>
   (k < length image_urls \<and> (\<forall>j<k. media_ok (pf j)) \<and> pf k = Inl e \<and>
    slides content = PList xs \<longrightarrow>
      result_of (publish_carousel p now woke pf content image_urls) = PublishError (exc_str e) \<and>
      requests_of (publish_carousel p now woke pf content image_urls) =
        map (\<lambda>j. CreateMedia (image_urls ! j) (slide_caption xs j)) [0..<Suc k])"
proof (intro conjI)
  show "k < length image_urls \<and> media_failed (pf k) \<longrightarrow>
      is_error (result_of (publish_carousel p now woke pf content image_urls)) \<and>
      (\<forall>r\<in>set (requests_of (publish_carousel p now woke pf content image_urls)). \<not> is_publish r)"
    using publish_carousel_media_failure [of k image_urls pf p now woke content] by blast
  show "k < length image_urls \<and> (\<forall>j<k. media_ok (pf j)) \<and> pf k = Inr resp \<and>
    status_code resp \<noteq> 200 \<and> slides content = PList xs \<longrightarrow>
      result_of (publish_carousel p now woke pf content image_urls) =
        PublishError (''Media creation failed: '' @ text_of resp) \<and>
      requests_of (publish_carousel p now woke pf content image_urls) =
        map (\<lambda>j. CreateMedia (image_urls ! j) (slide_caption xs j)) [0..<Suc k]"
    using publish_carousel_media_failure [of k image_urls pf p now woke content resp xs] by blast
  show "k < length image_urls \<and> (\<forall>j<k. media_ok (pf j)) \<and> pf k = Inl e \<and>
    slides content = PList xs \<longrightarrow>
      result_of (publish_carousel p now woke pf content image_urls) = PublishError (exc_str e) \<and>
      requests_of (publish_carousel p now woke pf content image_urls) =
        map (\<lambda>j. CreateMedia (image_urls ! j) (slide_caption xs j)) [0..<Suc k]"
  proof (intro impI; elim conjE)
    assume k: "k < length image_urls" and ok: "\<forall>j<k. media_ok (pf j)" and r: "pf k = Inl e"
      and sl: "slides content = PList xs"
    have cm: "create_media pf (PList xs) image_urls 0 [] [] =
        (Inl e, [] @ map (\<lambda>j. CreateMedia (image_urls ! j) (slide_caption xs (0 + j))) [0..<Suc k])"
      using ok r by (intro create_media_first_raise [OF k]) simp_all
    with sl show "result_of (publish_carousel p now woke pf content image_urls) = PublishError (exc_str e) \<and>
      requests_of (publish_carousel p now woke pf content image_urls) =
        map (\<lambda>j. CreateMedia (image_urls ! j) (slide_caption xs j)) [0..<Suc k]"
      by (simp add: publish_carousel_def result_of_def requests_of_def Let_def del: upt_Suc)
  qed
qed


theorem C2_media_failure_aborts_witness:
  "(2::nat) < length five_urls \<and> media_failed (third_fails_platform 2) \<and>
   media_ok (third_fails_platform 0) \<and> media_ok (third_fails_platform 1) \<and>
   third_fails_platform 2 = Inr bad_response \<and> status_code bad_response \<noteq> 200 \<and>
   slides (sample_piece five_slides) = PList five_slides \<and>
   publish_carousel sample_publisher 2000 2000 third_fails_platform (sample_piece five_slides) five_urls =
     (sample_publisher\<lparr>request_count := 1\<rparr>,
      PublishError ''Media creation failed: bad image'',
      [CreateMedia ''u0'' (PStr ''s0''), CreateMedia ''u1'' (PStr ''s1''),
       CreateMedia ''u2'' (PStr ''s2'')]) \<and>
   media_ok (third_raises_platform 0) \<and> media_ok (third_raises_platform 1) \<and>
   third_raises_platform 2 = Inl (PyExc ''ConnectionError'' ''boom'') \<and>
   result_of (publish_carousel sample_publisher 2000 2000 third_raises_platform
     (sample_piece five_slides) five_urls) = PublishError ''boom'' \<and>
   requests_of (publish_carousel sample_publisher 2000 2000 third_raises_platform
     (sample_piece five_slides) five_urls) =
     [CreateMedia ''u0'' (PStr ''s0''), CreateMedia ''u1'' (PStr ''s1''),
      CreateMedia ''u2'' (PStr ''s2'')]"
proof -
  have ok: "\<forall>j<2. media_ok (third_fails_platform j)"
    using sample_third_fails(1,2) by (auto simp: less_Suc_eq numeral_2_eq_2)
  have ok': "\<forall>j<2. media_ok (third_raises_platform j)"
    using sample_third_raises(1,2) by (auto simp: less_Suc_eq numeral_2_eq_2)
  have sl: "slides (sample_piece five_slides) = PList five_slides"
    by (simp add: sample_piece_def)
  have k: "(2::nat) < length five_urls"
    by (simp add: five_urls_def)
  note st = sample_publish_state [of third_fails_platform "sample_piece five_slides" five_urls]
  from C2_media_failure_aborts [of 2 five_urls third_fails_platform sample_publisher 2000 2000
      "sample_piece five_slides" bad_response five_slides] k ok sl sample_third_fails(3,4,5)
  have "result_of (publish_carousel sample_publisher 2000 2000 third_fails_platform
          (sample_piece five_slides) five_urls) = PublishError (''Media creation failed: '' @ text_of bad_response)"
    and "requests_of (publish_carousel sample_publisher 2000 2000 third_fails_platform
          (sample_piece five_slides) five_urls) =
        map (\<lambda>j. CreateMedia (five_urls ! j) (slide_caption five_slides j)) [0..<Suc 2]"
    by blast+
  with st have a: "publish_carousel sample_publisher 2000 2000 third_fails_platform
      (sample_piece five_slides) five_urls =
     (sample_publisher\<lparr>request_count := 1\<rparr>,
      PublishError ''Media creation failed: bad image'',
      [CreateMedia ''u0'' (PStr ''s0''), CreateMedia ''u1'' (PStr ''s1''),
       CreateMedia ''u2'' (PStr ''s2'')])"
    by (simp add: sample_three_requests result_of_def requests_of_def bad_response_def prod_eq_iff)
  from C2_media_failure_aborts [of 2 five_urls third_raises_platform sample_publisher 2000 2000
      "sample_piece five_slides" _ five_slides "PyExc ''ConnectionError'' ''boom''"]
    k ok' sl sample_third_raises(3)
  have b: "result_of (publish_carousel sample_publisher 2000 2000 third_raises_platform
          (sample_piece five_slides) five_urls) = PublishError ''boom''"
    "requests_of (publish_carousel sample_publisher 2000 2000 third_raises_platform
          (sample_piece five_slides) five_urls) =
        map (\<lambda>j. CreateMedia (five_urls ! j) (slide_caption five_slides j)) [0..<Suc 2]"
    by simp_all
  from a b k sl sample_third_fails sample_third_raises show ?thesis
    by (simp add: sample_three_requests)
qed

lemma sample_all_ok: "media_ok (all_ok_platform n)"
  by (simp add: all_ok_platform_def media_ok_def ok_response_def response_id_def)

lemma publish_carousel_all_ok_requests:
  assumes "slides content = PList xs" and "\<And>j. j < length image_urls \<Longrightarrow> media_ok (pf j)"
  shows "requests_of (publish_carousel p now woke pf content image_urls) =
      map (\<lambda>j. CreateMedia (image_urls ! j) (slide_caption xs j)) [0..<length image_urls] @
      [PublishMedia (post_caption content) (map (media_id_at pf) [0..<length image_urls])]"
proof -
  have "create_media pf (PList xs) image_urls 0 [] [] =
     (Inr (Inr ([] @ map (\<lambda>j. media_id_at pf (length ([]::request list) + j)) [0..<length image_urls])),
      [] @ map (\<lambda>j. CreateMedia (image_urls ! j) (slide_caption xs (0 + j))) [0..<length image_urls])"
    using assms(2) by (intro create_media_all_ok) simp
  then show ?thesis
    using assms(1)
    by (simp add: publish_carousel_def requests_of_def Let_def split: sum.splits)
qed

text \<open>
  C9 (as stated, refuted). With one asset and two slides the asset list is shorter than the
  slide list, yet no empty caption is sent; with two assets and one slide it is not
  shorter, yet the second media object gets the empty caption. And when the first media
  creation fails, the second asset URL gets no media-creation call.
\<close>

theorem C9_caption_condition_reversed:
  "length [''u0''] < length [PStr ''a'', PStr ''b''] \<and>
   media_captions (requests_of (publish_carousel sample_publisher 2000 2000 all_ok_platform
     (sample_piece [PStr ''a'', PStr ''b'']) [''u0''])) = [PStr ''a''] \<and>
   \<not> length [''u0'', ''u1''] < length [PStr ''a''] \<and>
   media_captions (requests_of (publish_carousel sample_publisher 2000 2000 all_ok_platform
     (sample_piece [PStr ''a'']) [''u0'', ''u1''])) = [PStr ''a'', PStr []] \<and>
   media_captions (requests_of (publish_carousel sample_publisher 2000 2000 (\<lambda>n. Inr bad_response)
     (sample_piece [PStr ''a'']) [''u0'', ''u1''])) = [PStr ''a'']"
  by (simp add: publish_carousel_all_ok_requests [where xs = "[PStr ''a'', PStr ''b'']"]
      publish_carousel_all_ok_requests [where xs = "[PStr ''a'']"]
      sample_all_ok sample_piece_def slide_caption_def)
    (simp add: publish_carousel_def requests_of_def sample_piece_def media_caption_def
      bad_response_def Let_def)

text \<open>
  C9 (amended). When the slides are a list and every media creation succeeds, each asset
  URL gets exactly one media-creation request, in list order, followed by the single
  publish request; the \<open>i\<close>-th media object is created with the \<open>i\<close>-th slide as its caption
  when \<open>i\<close> is below the number of slides, and with the empty string otherwise, that is, for
  the assets beyond the last slide when the asset list is longer than the slide list.
\<close>

theorem C9_media_requests_in_order:
  "(slides content = PList xs \<and> (\<forall>j<length image_urls. media_ok (pf j)) \<longrightarrow>
      requests_of (publish_carousel p now woke pf content image_urls) =
        map (\<lambda>j. CreateMedia (image_urls ! j) (if j < length xs then xs ! j else PStr []))
          [0..<length image_urls] @
        [PublishMedia (post_caption content) (map (media_id_at pf) [0..<length image_urls])])"
  by (simp add: publish_carousel_all_ok_requests slide_caption_def)

theorem C9_media_requests_in_order_witness:
  "slides (sample_piece [PStr ''a'']) = PList [PStr ''a''] \<and>
   media_ok (all_ok_platform 0) \<and> media_ok (all_ok_platform 1) \<and>
   requests_of (publish_carousel sample_publisher 2000 2000 all_ok_platform
     (sample_piece [PStr ''a'']) [''u0'', ''u1'']) =
     [CreateMedia ''u0'' (PStr ''a''), CreateMedia ''u1'' (PStr []),
      PublishMedia (post_caption (sample_piece [PStr ''a'']))
        [media_id_at all_ok_platform 0, media_id_at all_ok_platform 1]]"
proof -
  have sl: "slides (sample_piece [PStr ''a'']) = PList [PStr ''a'']"
    by (simp add: sample_piece_def)
  have "[0..<length [''u0'', ''u1'']] = [0, 1]"
    by (simp add: upt_rec)
  with sl show ?thesis
    using C9_media_requests_in_order [of "sample_piece [PStr ''a'']" "[PStr ''a'']"
        "[''u0'', ''u1'']" all_ok_platform sample_publisher 2000 2000]
    by (simp add: sample_all_ok)
qed


section \<open>Rate limiter theorems\<close>

lemma check_rate_limit_below_limit:
  "now - last_request_time p \<le> hour_us \<Longrightarrow> request_count p < rate_limit p \<Longrightarrow>
   check_rate_limit p now woke = (p\<lparr>request_count := request_count p + 1\<rparr>, None)"
  by (simp add: check_rate_limit_def Let_def)

lemma check_rate_limit_at_limit:
  "now - last_request_time p < hour_us \<Longrightarrow> rate_limit p \<le> request_count p \<Longrightarrow>
   check_rate_limit p now woke =
     (p\<lparr>request_count := 1, last_request_time := woke\<rparr>,
      Some (hour_us - (now - last_request_time p)))"
  by (simp add: check_rate_limit_def Let_def)

lemma check_rate_limit_window_over:
  "now - last_request_time p > hour_us \<Longrightarrow>
   check_rate_limit p now woke =
     check_rate_limit (p\<lparr>request_count := 0, last_request_time := now\<rparr>) now woke"
  by (simp add: check_rate_limit_def Let_def hour_us_def)

lemma run_calls_below_limit:
  "(\<And>c. c \<in> set cs \<Longrightarrow> fst c - last_request_time p \<le> hour_us) \<Longrightarrow>
   request_count p + int (length cs) \<le> rate_limit p \<Longrightarrow>
   run_calls p cs =
     (p\<lparr>request_count := request_count p + int (length cs)\<rparr>, replicate (length cs) None)"
proof (induction cs arbitrary: p)
  case Nil
  then show ?case by simp
next
  case (Cons c cs)
  obtain now woke where c: "c = (now, woke)" by (cases c)
  let ?p1 = "p\<lparr>request_count := request_count p + 1\<rparr>"
  have "fst c - last_request_time p \<le> hour_us"
    using Cons.prems(1) [of c] by simp
  then have step: "check_rate_limit p now woke = (?p1, None)"
    using Cons.prems(2) c by (intro check_rate_limit_below_limit) auto
  have "run_calls ?p1 cs =
      (?p1\<lparr>request_count := request_count ?p1 + int (length cs)\<rparr>, replicate (length cs) None)"
    using Cons.prems by (intro Cons.IH) auto
  with step c show ?case by (simp add: add.assoc)
qed

text \<open>
  At the very end of the window (exactly one hour elapsed) nothing is left to wait for:
  a call at the limit goes through at once and the counter passes the limit.
\<close>

lemma check_rate_limit_at_boundary:
  "now - last_request_time p = hour_us \<Longrightarrow> rate_limit p \<le> request_count p \<Longrightarrow>
   check_rate_limit p now woke = (p\<lparr>request_count := request_count p + 1\<rparr>, None)"
  by (simp add: check_rate_limit_def Let_def)

text \<open>
  The rate limiter as a state machine over (request_count, last_request_time). From a
  fresh window (counter 0), \<open>limit\<close> calls made while no more than an hour has passed since
  the window start all go through without a sleep, and after \<open>k\<close> of them the counter is
  \<open>k\<close>. The next call, made with less than an hour elapsed, sleeps for the rest of the
  window, then sets the window start to the clock after the sleep and the counter to 1.
  And whenever more than 3600 seconds have passed since the window start, a call behaves
  as it would on the state with counter 0 and window start \<open>now\<close>.
\<close>

lemma check_rate_limit_window:
  "(request_count p = 0 \<and> int (length cs) = rate_limit p \<and>
    (\<forall>c\<in>set cs. fst c - last_request_time p \<le> hour_us) \<longrightarrow>
      (\<forall>k\<le>length cs. run_calls p (take k cs) = (p\<lparr>request_count := int k\<rparr>, replicate k None)) \<and>
      (now - last_request_time p < hour_us \<longrightarrow>
         check_rate_limit (fst (run_calls p cs)) now woke =
           (p\<lparr>request_count := 1, last_request_time := woke\<rparr>,
            Some (hour_us - (now - last_request_time p))) \<and>
         0 < hour_us - (now - last_request_time p))) \<and>
   (hour_us < now - last_request_time q \<longrightarrow>
      check_rate_limit q now woke =
        check_rate_limit (q\<lparr>request_count := 0, last_request_time := now\<rparr>) now woke)"
proof (intro conjI impI allI; (elim conjE)?)
  fix k
  assume fresh: "request_count p = 0" and n: "int (length cs) = rate_limit p"
    and w: "\<forall>c\<in>set cs. fst c - last_request_time p \<le> hour_us" and k: "k \<le> length cs"
  have "run_calls p (take k cs) =
      (p\<lparr>request_count := request_count p + int (length (take k cs))\<rparr>,
       replicate (length (take k cs)) None)"
  proof (rule run_calls_below_limit)
    fix c assume "c \<in> set (take k cs)"
    then have "c \<in> set cs" by (rule in_set_takeD)
    with w show "fst c - last_request_time p \<le> hour_us" by blast
  next
    show "request_count p + int (length (take k cs)) \<le> rate_limit p"
      using fresh n k by simp
  qed
  with fresh k show "run_calls p (take k cs) = (p\<lparr>request_count := int k\<rparr>, replicate k None)"
    by (simp add: min_absorb2)
next
  assume fresh: "request_count p = 0" and n: "int (length cs) = rate_limit p"
    and w: "\<forall>c\<in>set cs. fst c - last_request_time p \<le> hour_us"
    and inside: "now - last_request_time p < hour_us"
  have "run_calls p cs =
      (p\<lparr>request_count := request_count p + int (length cs)\<rparr>, replicate (length cs) None)"
    using w fresh n by (intro run_calls_below_limit) auto
  then have full: "fst (run_calls p cs) = p\<lparr>request_count := rate_limit p\<rparr>"
    using fresh n by simp
  show "check_rate_limit (fst (run_calls p cs)) now woke =
      (p\<lparr>request_count := 1, last_request_time := woke\<rparr>,
       Some (hour_us - (now - last_request_time p)))"
    unfolding full using inside by (simp add: check_rate_limit_at_limit)
  show "0 < hour_us - (now - last_request_time p)"
    using inside by simp
next
  assume "hour_us < now - last_request_time q"
  then show "check_rate_limit q now woke =
      check_rate_limit (q\<lparr>request_count := 0, last_request_time := now\<rparr>) now woke"
    by (rule check_rate_limit_window_over)
qed

text \<open>
  C4. The code breaks the claim at the end of the window. With a limit of 2, two calls go
  through and bring the counter to the limit. A third call exactly 3600 seconds after the
  window start is still inside that window (the reset needs more than 3600 seconds), yet
  nothing is left to wait for, so the code neither sleeps nor resets: the call goes
  through at once and the counter ends at 3, above the limit.
\<close>

theorem C4_limit_passed_at_window_end:
  "rate_limit sample_publisher = 2 \<and>
   run_calls sample_publisher sample_calls =
     (sample_publisher\<lparr>request_count := 2\<rparr>, [None, None]) \<and>
   3600001000 - last_request_time (sample_publisher\<lparr>request_count := 2\<rparr>) = hour_us \<and>
   check_rate_limit (sample_publisher\<lparr>request_count := 2\<rparr>) 3600001000 3600001000 =
     (sample_publisher\<lparr>request_count := 3\<rparr>, None)"
  by (simp add: sample_calls_def check_rate_limit_def sample_publisher_def hour_us_def)



section \<open>Retry layer theorems\<close>

lemma run_task_retry:
  "retries < max_retries \<Longrightarrow> run_task base retries (Inl exc) = RetryIn (base * 2 ^ retries) exc"
  by (simp add: run_task_def mult.commute)

lemma run_task_exhausted:
  "max_retries \<le> retries \<Longrightarrow> run_task base retries (Inl exc) = Raised exc"
  by (simp add: run_task_def)

lemma queue_run_retry_step:
  "r < max_retries \<Longrightarrow> attempt r = Inl e \<Longrightarrow>
   queue_run (run_task base) attempt r =
     (case queue_run (run_task base) attempt (Suc r) of
        (states, delays, res) \<Rightarrow> (Running # Retrying # states, base * 2 ^ r # delays, res))"
  by (subst queue_run.simps) (simp add: run_task_def mult.commute)

lemma queue_run_exhausted:
  "max_retries \<le> r \<Longrightarrow> attempt r = Inl e \<Longrightarrow>
   queue_run (run_task base) attempt r = ([Running, Failed], [], Inl e)"
  by (subst queue_run.simps) (simp add: run_task_def)

lemma queue_run_all_fail:
  assumes "\<And>r. attempt r = Inl (errs r)"
  shows "queue_run (run_task base) attempt 0 =
     ([Running, Retrying, Running, Retrying, Running, Retrying, Running, Failed],
      [base, base * 2, base * 4], Inl (errs 3))"
proof -
  have three: "(3::nat) = Suc (Suc (Suc 0))"
    by simp
  have r3: "queue_run (run_task base) attempt (Suc (Suc (Suc 0))) =
      ([Running, Failed], [], Inl (errs 3))"
    using queue_run_exhausted [of "Suc (Suc (Suc 0))" attempt "errs 3" base] assms [of 3]
    by (simp add: max_retries_def three)
  have r2: "queue_run (run_task base) attempt (Suc (Suc 0)) =
      ([Running, Retrying, Running, Failed], [base * 4], Inl (errs 3))"
    using queue_run_retry_step [of "Suc (Suc 0)" attempt "errs (Suc (Suc 0))" base] assms r3
    by (simp add: max_retries_def)
  have r1: "queue_run (run_task base) attempt (Suc 0) =
      ([Running, Retrying, Running, Retrying, Running, Failed], [base * 2, base * 4], Inl (errs 3))"
    using queue_run_retry_step [of "Suc 0" attempt "errs (Suc 0)" base] assms r2
    by (simp add: max_retries_def)
  show ?thesis
    using queue_run_retry_step [of 0 attempt "errs 0" base] assms r1
    by (simp add: max_retries_def)
qed

text \<open>
  C5 (amended). For each of the four retryable tasks, when a run raises: if the retry
  counter is below the maximum of 3, a re-attempt is requested after exactly
  \<open>base * 2 ^ retries\<close> seconds, with base 60 for daily content generation, 300 for the
  weekly batch, 600 for the campaign and 300 for publishing; once the counter has reached
  the maximum, the exception itself is raised, so the operation ends Failed with the last
  attempt's error. An operation failing on every attempt runs four times:
  Pending, Running, Retrying, Running, Retrying, Running, Retrying, Running, Failed, with
  countdowns base, 2 base and 4 base, and the error propagated is that of the fourth run.
\<close>

theorem C5_bounded_retry:
  "(retries < max_retries \<longrightarrow>
      generate_daily_content retries (Inl exc) = (RetryIn (60 * 2 ^ retries) exc :: 'a task_outcome) \<and>
      generate_weekly_content retries (Inl exc) = (RetryIn (300 * 2 ^ retries) exc :: 'a task_outcome) \<and>
      generate_bot_teaser_campaign retries (Inl exc) = (RetryIn (600 * 2 ^ retries) exc :: 'a task_outcome) \<and>
      publish_scheduled_content retries (Inl exc) = (RetryIn (300 * 2 ^ retries) exc :: 'a task_outcome)) \<and>
   (max_retries \<le> retries \<longrightarrow>
      generate_daily_content retries (Inl exc) = (Raised exc :: 'a task_outcome) \<and>
      generate_weekly_content retries (Inl exc) = (Raised exc :: 'a task_outcome) \<and>
      generate_bot_teaser_campaign retries (Inl exc) = (Raised exc :: 'a task_outcome) \<and>
      publish_scheduled_content retries (Inl exc) = (Raised exc :: 'a task_outcome)) \<and>
   max_retries = 3 \<and>
   ((\<forall>r. attempt r = Inl (errs r)) \<longrightarrow>
      execute (run_task base) attempt =
        ([Pending, Running, Retrying, Running, Retrying, Running, Retrying, Running, Failed],
         [base, base * 2, base * 4], (Inl (errs 3) :: py_exception + 'b)))"
proof (intro conjI impI)
  assume "\<forall>r. attempt r = Inl (errs r)"
  then have "queue_run (run_task base) attempt 0 =
     ([Running, Retrying, Running, Retrying, Running, Retrying, Running, Failed],
      [base, base * 2, base * 4], (Inl (errs 3) :: py_exception + 'b))"
    by (intro queue_run_all_fail) simp
  then show "execute (run_task base) attempt =
        ([Pending, Running, Retrying, Running, Retrying, Running, Retrying, Running, Failed],
         [base, base * 2, base * 4], (Inl (errs 3) :: py_exception + 'b))"
    by (simp add: execute_def)
qed (simp_all add: generate_daily_content_def generate_weekly_content_def
      generate_bot_teaser_campaign_def publish_scheduled_content_def
      run_task_retry run_task_exhausted max_retries_def)

lemma digit_str_3: "digit_str 3 = ''3''"
  by (simp add: digit_str.simps [of 3] digit_char_def)

lemma always_failing_run:
  "execute (run_task base) always_failing =
     ([Pending, Running, Retrying, Running, Retrying, Running, Retrying, Running, Failed],
      [base, base * 2, base * 4], Inl (PyExc ''Exception'' ''attempt 3''))"
proof -
  have "queue_run (run_task base) always_failing 0 =
     ([Running, Retrying, Running, Retrying, Running, Retrying, Running, Failed],
      [base, base * 2, base * 4], Inl (PyExc ''Exception'' (''attempt '' @ digit_str 3)))"
    by (intro queue_run_all_fail) (simp add: always_failing_def)
  then show ?thesis
    by (simp add: execute_def digit_str_3)
qed

text \<open>
  C5 (as stated, refuted). An operation failing on every attempt is retried three times,
  not twice: with \<open>max_retries = 3\<close> the handler asks for a retry while
  \<open>self.request.retries\<close> is 0, 1 and 2, and gives up in the fourth run.
\<close>

theorem C5_three_retries_before_failure:
  "fst (execute generate_daily_content always_failing) =
     [Pending, Running, Retrying, Running, Retrying, Running, Retrying, Running, Failed] \<and>
   length (filter (\<lambda>s. s = Retrying) (fst (execute generate_daily_content always_failing))) = 3 \<and>
   length (filter (\<lambda>s. s = Retrying) (fst (execute generate_daily_content always_failing))) \<noteq> 2 \<and>
   fst (snd (execute generate_daily_content always_failing)) = [60, 120, 240] \<and>
   snd (snd (execute generate_daily_content always_failing)) = Inl (PyExc ''Exception'' ''attempt 3'')"
  by (simp add: generate_daily_content_def always_failing_run)

theorem C5_bounded_retry_witness:
  "(2::nat) < max_retries \<and>
   generate_daily_content 2 (Inl (PyExc ''Exception'' ''boom'')) =
     (RetryIn 240 (PyExc ''Exception'' ''boom'') :: unit task_outcome) \<and>
   max_retries \<le> 3 \<and>
   publish_scheduled_content 3 (Inl (PyExc ''Exception'' ''boom'')) =
     (Raised (PyExc ''Exception'' ''boom'') :: unit task_outcome) \<and>
   (\<forall>r. always_failing r = Inl (PyExc ''Exception'' (''attempt '' @ digit_str r))) \<and>
   execute (run_task 300) always_failing =
     ([Pending, Running, Retrying, Running, Retrying, Running, Retrying, Running, Failed],
      [300, 600, 1200], Inl (PyExc ''Exception'' ''attempt 3''))"
proof -
  let ?errs = "\<lambda>r. PyExc ''Exception'' (''attempt '' @ digit_str r)"
  let ?boom = "PyExc ''Exception'' ''boom''"
  have h: "(2::nat) < max_retries" "max_retries \<le> 3" "\<forall>r. always_failing r = Inl (?errs r)"
    by (simp_all add: max_retries_def always_failing_def)
  note at2 = C5_bounded_retry [where 'a = unit and 'b = unit, of 2 ?boom always_failing ?errs 300]
  note at3 = C5_bounded_retry [where 'a = unit and 'b = unit, of 3 ?boom always_failing ?errs 300]
  from at2 h(1) have a: "generate_daily_content 2 (Inl ?boom) =
      (RetryIn (60 * 2 ^ 2) ?boom :: unit task_outcome)"
    by blast
  from at3 h(2) have b: "publish_scheduled_content 3 (Inl ?boom) = (Raised ?boom :: unit task_outcome)"
    by blast
  from at2 h(3) have c: "execute (run_task 300) always_failing =
      ([Pending, Running, Retrying, Running, Retrying, Running, Retrying, Running, Failed],
       [300, 300 * 2, 300 * 4], Inl (?errs 3))"
    by blast
  from h a b c show ?thesis
    by (simp add: digit_str_3)
qed


section \<open>Engagement estimator theorems\<close>







































end
